theory Spec2Isabelle
  imports Main "HOL-Library.Word" "HOL-Library.AList" "HOL-Library.Signed_Division"
begin

section \<open>gohttpclient: interceptor chain, retry, cache, codec and storage backends\<close>

text \<open>
  A shallow embedding of the Go package \<open>gohttpclient\<close>. Go functions that have side
  effects are modelled by state passing: a computation over a world \<open>'w\<close> is a function
  \<open>'w \<Rightarrow> 'a \<times> 'w\<close>. Nil pointers are \<open>None\<close>, Go strings and byte slices are
  \<open>string\<close> (lists of bytes), and a Go \<open>(value, error)\<close> pair whose value is only
  used when the error is nil is a sum with \<open>Inl\<close> for the error.
\<close>

subsection \<open>request\_handler.go\<close>

text \<open>
  \<open>RequestHandlerFunc\<close> is \<open>func(req) (resp, err)\<close> and \<open>RequestHandler\<close> is
  \<open>func(req, handlerFunc) (resp, err)\<close>. The composer never inspects the request or the
  result, so both are type parameters: \<open>'rq\<close> is the request and \<open>'m\<close> the whole effect
  of a call (for a stateful world, \<open>'w \<Rightarrow> 'r \<times> 'w\<close>).
\<close>

type_synonym ('rq, 'm) RequestHandlerFunc = "'rq \<Rightarrow> 'm"

type_synonym ('rq, 'm) RequestHandler = "'rq \<Rightarrow> ('rq, 'm) RequestHandlerFunc \<Rightarrow> 'm"

definition noOpRequestHandler :: "('rq, 'm) RequestHandler" where
  "noOpRequestHandler req handlerFunc = handlerFunc req"

text \<open>
  The loop \<open>for i := n - 1; i > 0; i-- { ... }\<close> of \<open>ChainRequestHandlers\<close>:
  \<open>chain_loop handlers i currHandlerFunc\<close> is the value of \<open>currHandlerFunc\<close> when the
  loop, entered with index \<open>i\<close>, has finished.
\<close>

fun chain_loop ::
  "('rq, 'm) RequestHandler list \<Rightarrow> nat \<Rightarrow> ('rq, 'm) RequestHandlerFunc
    \<Rightarrow> ('rq, 'm) RequestHandlerFunc" where
  "chain_loop handlers 0 currHandlerFunc = currHandlerFunc"
| "chain_loop handlers (Suc j) currHandlerFunc =
     chain_loop handlers j (\<lambda>req. (handlers ! Suc j) req currHandlerFunc)"

definition ChainRequestHandlers :: "('rq, 'm) RequestHandler list \<Rightarrow> ('rq, 'm) RequestHandler" where
  "ChainRequestHandlers handlers =
     (let n = length handlers in
      if n = 0 then noOpRequestHandler
      else if n = 1 then handlers ! 0
      else (\<lambda>req handlerFunc. (handlers ! 0) req (chain_loop handlers (n - 1) handlerFunc)))"

text \<open>
  Interceptors for observing a traversal. The world is a log of entry events together
  with a user state \<open>'s\<close>. \<open>passing e pre post\<close> is an interceptor that records \<open>e\<close> on
  entry, does some work \<open>pre\<close> (which may rewrite the request), calls its next-callable
  once and post-processes the result with \<open>post\<close>; \<open>terminal e T\<close> is a terminal call
  that records \<open>e\<close> and then performs \<open>T\<close>.
\<close>

definition passing ::
  "'e \<Rightarrow> ('rq \<Rightarrow> 's \<Rightarrow> 'rq \<times> 's) \<Rightarrow> ('r \<Rightarrow> 's \<Rightarrow> 'r \<times> 's)
    \<Rightarrow> ('rq, 'e list \<times> 's \<Rightarrow> 'r \<times> 'e list \<times> 's) RequestHandler" where
  "passing e pre post req next =
     (\<lambda>(log, s).
        let (req', s1) = pre req s;
            (r, log2, s2) = next req' (log @ [e], s1);
            (r', s3) = post r s2
        in (r', log2, s3))"

definition terminal ::
  "'e \<Rightarrow> ('rq \<Rightarrow> 's \<Rightarrow> 'r \<times> 's)
    \<Rightarrow> ('rq, 'e list \<times> 's \<Rightarrow> 'r \<times> 'e list \<times> 's) RequestHandlerFunc" where
  "terminal e T req = (\<lambda>(log, s). let (r, s1) = T req s in (r, log @ [e], s1))"

fun passing_of ::
  "'e \<times> ('rq \<Rightarrow> 's \<Rightarrow> 'rq \<times> 's) \<times> ('r \<Rightarrow> 's \<Rightarrow> 'r \<times> 's)
    \<Rightarrow> ('rq, 'e list \<times> 's \<Rightarrow> 'r \<times> 'e list \<times> 's) RequestHandler" where
  "passing_of (e, pre, post) = passing e pre post"

subsection \<open>Errors\<close>

text \<open>
  Go error values. The sentinels are the package-level variables the code compares
  against (\<open>context.Canceled\<close>, \<open>ErrCacheKeyNotFound\<close>, \<open>redis.Nil\<close>, ...);
  \<open>errors_New\<close> is \<open>errors.New(msg)\<close>; \<open>withMessage cause msg\<close> is the value built by
  \<open>errors.Wrap(cause, msg)\<close> of github.com/pkg/errors; \<open>NumError\<close> is
  \<open>strconv.NumError\<close>; \<open>PathError\<close> is \<open>fs.PathError\<close> and \<open>fs_ErrNotExist\<close> is
  \<open>fs.ErrNotExist\<close>; \<open>Foreign msg\<close> is any other error (of the transport, the
  operating system, a codec), known by its text.
\<close>

datatype error =
    context_Canceled
  | context_DeadlineExceeded
  | ErrCacheKeyNotFound
  | redis_Nil
  | strconv_ErrSyntax
  | strconv_ErrRange
  | errors_New string
  | withMessage error string
  | NumError string string error
  | fs_ErrNotExist
  | PathError string string error
  | Foreign string

definition hexdigit :: "nat \<Rightarrow> char" where
  "hexdigit n = ''0123456789abcdef'' ! (n mod 16)"

text \<open>
  \<open>strconv.Quote\<close>, byte by byte. It is exact for ASCII strings; a byte from 128 on is
  written \<open>\xNN\<close>, which is what Go does for bytes that are not valid UTF-8.
\<close>

definition quote_byte :: "char \<Rightarrow> string" where
  "quote_byte c =
     (let n = (of_char c :: nat) in
      if n = 34 then [char_of (92::nat), c]
      else if n = 92 then [c, c]
      else if 32 \<le> n \<and> n < 127 then [c]
      else if n = 7 then [char_of (92::nat), CHR ''a'']
      else if n = 8 then [char_of (92::nat), CHR ''b'']
      else if n = 12 then [char_of (92::nat), CHR ''f'']
      else if n = 10 then [char_of (92::nat), CHR ''n'']
      else if n = 13 then [char_of (92::nat), CHR ''r'']
      else if n = 9 then [char_of (92::nat), CHR ''t'']
      else if n = 11 then [char_of (92::nat), CHR ''v'']
      else [char_of (92::nat), CHR ''x'', hexdigit (n div 16), hexdigit n])"

definition strconv_Quote :: "string \<Rightarrow> string" where
  "strconv_Quote s = [char_of (34::nat)] @ concat (map quote_byte s) @ [char_of (34::nat)]"

text \<open>The \<open>Error()\<close> method.\<close>

fun error_Error :: "error \<Rightarrow> string" where
  "error_Error context_Canceled = ''context canceled''"
| "error_Error context_DeadlineExceeded = ''context deadline exceeded''"
| "error_Error ErrCacheKeyNotFound = ''cache key not found''"
| "error_Error redis_Nil = ''redis: nil''"
| "error_Error strconv_ErrSyntax = ''invalid syntax''"
| "error_Error strconv_ErrRange = ''value out of range''"
| "error_Error (errors_New msg) = msg"
| "error_Error (withMessage cause msg) = msg @ '': '' @ error_Error cause"
| "error_Error (NumError fn num err) =
     ''strconv.'' @ fn @ '': parsing '' @ strconv_Quote num @ '': '' @ error_Error err"
| "error_Error fs_ErrNotExist = ''file does not exist''"
| "error_Error (PathError op path err) = op @ '' '' @ path @ '': '' @ error_Error err"
| "error_Error (Foreign msg) = msg"

text \<open>\<open>errors.Wrap(err, message)\<close>: nil when \<open>err\<close> is nil.\<close>

definition errors_Wrap :: "error option \<Rightarrow> string \<Rightarrow> error option" where
  "errors_Wrap err message =
     (case err of None \<Rightarrow> None | Some e \<Rightarrow> Some (withMessage e message))"

text \<open>\<open>Unwrap\<close>, \<open>errors.Is(err, target)\<close> of the standard library and \<open>errors.Cause\<close>.\<close>

fun Unwrap :: "error \<Rightarrow> error option" where
  "Unwrap (withMessage cause msg) = Some cause"
| "Unwrap (NumError fn num err) = Some err"
| "Unwrap (PathError op path err) = Some err"
| "Unwrap e = None"

fun errors_Is :: "error \<Rightarrow> error \<Rightarrow> bool" where
  "errors_Is (withMessage cause msg) target =
     (withMessage cause msg = target \<or> errors_Is cause target)"
| "errors_Is (NumError fn num err) target =
     (NumError fn num err = target \<or> errors_Is err target)"
| "errors_Is (PathError op path err) target =
     (PathError op path err = target \<or> errors_Is err target)"
| "errors_Is e target = (e = target)"

fun errors_Cause :: "error \<Rightarrow> error" where
  "errors_Cause (withMessage cause msg) = errors_Cause cause"
| "errors_Cause e = e"

text \<open>\<open>fmt.Sprintf("%v", err)\<close> for an error operand.\<close>

definition fmt_v :: "error option \<Rightarrow> string" where
  "fmt_v err = (case err of None \<Rightarrow> ''<nil>'' | Some e \<Rightarrow> error_Error e)"

subsection \<open>net/http values\<close>

text \<open>
  \<open>http.Header\<close> is \<open>map[string][]string\<close>. Go maps are association lists with
  distinct keys here; the order of the list is the order in which a \<open>range\<close> loop
  visits the keys, which Go leaves unspecified.
\<close>

type_synonym Header = "(string \<times> string list) list"

definition validHeaderFieldByte :: "char \<Rightarrow> bool" where
  "validHeaderFieldByte c =
     (let n = (of_char c :: nat) in
      (48 \<le> n \<and> n \<le> 57) \<or> (65 \<le> n \<and> n \<le> 90) \<or> (97 \<le> n \<and> n \<le> 122) \<or>
      n = 39 \<or> c \<in> set ''!#$%&*+-.^_`|~'')"

fun canon_loop :: "bool \<Rightarrow> string \<Rightarrow> string" where
  "canon_loop upper [] = []"
| "canon_loop upper (c # a) =
     (let n = (of_char c :: nat);
          c' = (if upper \<and> 97 \<le> n \<and> n \<le> 122 then char_of (n - 32)
                else if \<not> upper \<and> 65 \<le> n \<and> n \<le> 90 then char_of (n + 32)
                else c)
      in c' # canon_loop (c' = CHR ''-'') a)"

text \<open>
  \<open>textproto.CanonicalMIMEHeaderKey\<close>: a key with a byte that is not a token character
  is returned unchanged; otherwise the first letter and every letter after a hyphen
  are upper-cased and the others lower-cased.
\<close>

definition CanonicalMIMEHeaderKey :: "string \<Rightarrow> string" where
  "CanonicalMIMEHeaderKey s =
     (if list_all validHeaderFieldByte s then canon_loop True s else s)"

text \<open>\<open>Header.Get\<close>: the first value stored under the canonical key, or the empty string.\<close>

definition Header_Get :: "Header \<Rightarrow> string \<Rightarrow> string" where
  "Header_Get h key =
     (case map_of h (CanonicalMIMEHeaderKey key) of
        None \<Rightarrow> []
      | Some v \<Rightarrow> (case v of [] \<Rightarrow> [] | x # _ \<Rightarrow> x))"

text \<open>\<open>Header.Set\<close>: the canonical key gets the single value.\<close>

definition Header_Set :: "Header \<Rightarrow> string \<Rightarrow> string \<Rightarrow> Header" where
  "Header_Set h key value = AList.update (CanonicalMIMEHeaderKey key) [value] h"

text \<open>
  A URL is known by what its \<open>String()\<close> method returns, the only thing this package
  reads from it.
\<close>

datatype URL = URL (URL_String: string)

text \<open>
  A body is a reader: \<open>Reader bs\<close> yields the bytes \<open>bs\<close> and then EOF, \<open>ErrReader e\<close>
  fails with \<open>e\<close>. \<open>io.ReadAll\<close> returns all the bytes or the error.
\<close>

datatype Body = Reader string | ErrReader error

fun io_ReadAll :: "Body \<Rightarrow> error + string" where
  "io_ReadAll (Reader bs) = Inr bs"
| "io_ReadAll (ErrReader e) = Inl e"

text \<open>
  The context of a request: \<open>Background\<close> is never done; \<open>Ctx n\<close> is a context that
  may be cancelled or time out, its state is part of the world.
\<close>

datatype Context = Background | Ctx nat

record Request =
  Method :: string
  URL :: "URL option"
  Header :: Header
  Body :: "Body option"
  ctx :: Context

record Response =
  Status :: string
  StatusCode :: int
  Proto :: string
  ProtoMajor :: int
  ProtoMinor :: int
  Header :: Header
  Body :: "Body option"
  ContentLength :: int
  Request :: "Request option"

type_synonym Result = "Response option \<times> error option"

text \<open>
  A handler of this package: its downstream call is a computation over the world; the
  handler itself returns \<open>Inl msg\<close> when it panics with \<open>msg\<close>.
\<close>

type_synonym 'w Downstream = "Request option \<Rightarrow> 'w \<Rightarrow> Result \<times> 'w"

type_synonym 'w Handler = "Request option \<Rightarrow> 'w Downstream \<Rightarrow> 'w \<Rightarrow> (string + Result) \<times> 'w"


definition lift :: "('w \<Rightarrow> 'a \<times> 'w) \<Rightarrow> nat \<times> 'w \<Rightarrow> 'a \<times> nat \<times> 'w" where
  "lift f = (\<lambda>(n, w). let (x, w1) = f w in (x, (n, w1)))"

subsection \<open>strconv.ParseUint(s, 10, 64)\<close>

text \<open>
  The digit loop of \<open>ParseUint\<close> for base 10 and 64 bits: a byte that is not a digit is
  a syntax error, a value above \<open>2^64 - 1\<close> a range error; \<open>n\<close> is the value so far.
\<close>

fun parse_digits :: "string \<Rightarrow> nat \<Rightarrow> error + nat" where
  "parse_digits [] n = Inr n"
| "parse_digits (c # s) n =
     (let d = (of_char c :: nat) in
      if \<not> (48 \<le> d \<and> d \<le> 57) then Inl strconv_ErrSyntax
      else if n \<ge> (2 ^ 64 - 1) div 10 + 1 then Inl strconv_ErrRange
      else (let n1 = n * 10 + (d - 48) in
            if n1 > 2 ^ 64 - 1 then Inl strconv_ErrRange else parse_digits s n1))"

definition ParseUint :: "string \<Rightarrow> error + 64 word" where
  "ParseUint s =
     (if s = [] then Inl (NumError ''ParseUint'' s strconv_ErrSyntax)
      else case parse_digits s 0 of
             Inl e \<Rightarrow> Inl (NumError ''ParseUint'' s e)
           | Inr n \<Rightarrow> Inr (of_nat n))"

subsection \<open>body\_size.go\<close>

record BodySizeOption =
  MaxBodySize :: "64 word"

definition NewBodySizeOption :: "64 word \<Rightarrow> BodySizeOption" where
  "NewBodySizeOption maxBodySize = \<lparr>MaxBodySize = maxBodySize\<rparr>"

text \<open>
  \<open>BodySizeHandler\<close>. A nil response returned without error makes \<open>resp.Header\<close> a nil
  dereference: the handler panics.
\<close>

definition BodySizeHandler :: "BodySizeOption \<Rightarrow> 'w Handler" where
  "BodySizeHandler option req handlerFunc w =
     (let ((resp, err), w1) = handlerFunc req w in
      if err \<noteq> None then (Inr (resp, err), w1)
      else case resp of
        None \<Rightarrow>
          (Inl ''runtime error: invalid memory address or nil pointer dereference'', w1)
      | Some r \<Rightarrow>
          (let contentLengthStr = Header_Get (Response.Header r) ''Content-Length'' in
           case ParseUint contentLengthStr of
             Inl e \<Rightarrow>
               (Inr (None, errors_Wrap (Some e) ''Parse the data size of the response content''), w1)
           | Inr contentLength \<Rightarrow>
               if contentLength > MaxBodySize option
               then (Inr (None, Some (errors_New ''The server response data is too large'')), w1)
               else (Inr (resp, None), w1)))"

subsection \<open>cache.go\<close>

text \<open>
  \<open>time.Duration\<close> is a signed 64-bit count of nanoseconds.
\<close>

type_synonym Duration = "64 word"

text \<open>
  The pluggable functions of \<open>CacheOption\<close> are Go closures, so each is a computation
  over the world. A fingerprint is \<open>None\<close> when the hash function returns nil.
  \<open>Cacher\<close> and \<open>RequestEntryEncoderDecoder\<close> are the two interfaces.
\<close>

record RequestEntry =
  Request :: "Request option"
  Response :: "Response option"
  Error :: "error option"

record 'w Cacher =
  Get :: "string \<Rightarrow> 'w \<Rightarrow> (error + string) \<times> 'w"
  Set :: "string \<Rightarrow> string \<Rightarrow> Duration \<Rightarrow> 'w \<Rightarrow> error option \<times> 'w"

record 'w RequestEntryEncoderDecoder =
  Encode :: "RequestEntry \<Rightarrow> 'w \<Rightarrow> (error + string) \<times> 'w"
  Decode :: "string \<Rightarrow> 'w \<Rightarrow> (error + RequestEntry) \<times> 'w"

record 'w CacheOption =
  ShouldCacheFunc :: "Request option \<Rightarrow> Response option \<Rightarrow> error option \<Rightarrow> 'w \<Rightarrow> bool \<times> 'w"
  RequestHashFunc ::
    "Request option \<Rightarrow> Response option \<Rightarrow> error option \<Rightarrow> 'w \<Rightarrow> string option \<times> 'w"
  CacheTTLFunc :: "Request option \<Rightarrow> Response option \<Rightarrow> error option \<Rightarrow> 'w \<Rightarrow> Duration \<times> 'w"
  Cacher :: "'w Cacher"
  EncoderDecoder :: "'w RequestEntryEncoderDecoder"

text \<open>A Go function without side effects, as a computation over the world.\<close>

definition pure :: "'a \<Rightarrow> 'w \<Rightarrow> 'a \<times> 'w" where
  "pure x w = (x, w)"

definition DefaultShouldCacheFunc :: "Request option \<Rightarrow> Response option \<Rightarrow> error option \<Rightarrow> bool" where
  "DefaultShouldCacheFunc req resp err =
     (case req of
        None \<Rightarrow> False
      | Some r \<Rightarrow>
          Request.URL r \<noteq> None \<and> Request.Method r = ''GET'' \<and>
          (case resp of None \<Rightarrow> False | Some rs \<Rightarrow> Response.StatusCode rs = 200) \<and>
          err = None)"

text \<open>
  \<open>DefaultRequestHashFunc\<close>. \<open>sha1_Sum\<close> is the SHA-1 digest of \<open>crypto/sha1\<close> and
  \<open>base64_URLEncoding\<close> is \<open>base64.URLEncoding.EncodeToString\<close>, both functions of
  the Go standard library and parameters here.
\<close>

definition DefaultRequestHashFunc ::
  "(string \<Rightarrow> string) \<Rightarrow> (string \<Rightarrow> string)
    \<Rightarrow> Request option \<Rightarrow> Response option \<Rightarrow> error option \<Rightarrow> string option" where
  "DefaultRequestHashFunc sha1_Sum base64_URLEncoding req resp err =
     (case req of
        None \<Rightarrow> None
      | Some r \<Rightarrow>
          (case Request.URL r of
             None \<Rightarrow> None
           | Some u \<Rightarrow>
               if Request.Method r \<noteq> ''GET'' then None
               else (let bv = URL_String u;
                         sha = base64_URLEncoding (sha1_Sum bv)
                     in Some sha)))"

text \<open>\<open>5 * time.Minute\<close> in nanoseconds.\<close>

definition DefaultCacheTTLFunc :: "Request option \<Rightarrow> Response option \<Rightarrow> error option \<Rightarrow> Duration" where
  "DefaultCacheTTLFunc req resp err = 300000000000"

text \<open>
  \<open>CacheHandler\<close>. \<open>cache_lookup\<close> is its first part, up to the early return on a hit:
  \<open>Some\<close> is the result returned from the cache, \<open>None\<close> means that the handler goes
  on to the downstream call. \<open>cache_store\<close> is the part after the downstream call.
\<close>

definition cache_lookup ::
  "'w CacheOption \<Rightarrow> Request option \<Rightarrow> 'w \<Rightarrow> Result option \<times> 'w" where
  "cache_lookup option req w =
     (let (hash, w1) = RequestHashFunc option req None None w in
      case hash of
        None \<Rightarrow> (None, w1)
      | Some h \<Rightarrow>
          (let (got, w2) = Get (Cacher option) h w1 in
           case got of
             Inl err \<Rightarrow> (None, w2)
           | Inr cacheValue \<Rightarrow>
               (let (dec, w3) = Decode (EncoderDecoder option) cacheValue w2 in
                case dec of
                  Inl err \<Rightarrow> (None, w3)
                | Inr re \<Rightarrow> (Some (RequestEntry.Response re, RequestEntry.Error re), w3))))"

definition cache_store ::
  "'w CacheOption \<Rightarrow> Request option \<Rightarrow> Result \<Rightarrow> 'w \<Rightarrow> Result \<times> 'w" where
  "cache_store option req res w =
     (let (resp, returnErr) = res;
          (shouldCache, w1) = ShouldCacheFunc option req resp returnErr w in
      if \<not> shouldCache then ((resp, returnErr), w1)
      else
        (let (hash, w2) = RequestHashFunc option req resp returnErr w1 in
         case hash of
           None \<Rightarrow> ((resp, returnErr), w2)
         | Some h \<Rightarrow>
             (let re = \<lparr>Request = req, Response = resp, Error = returnErr\<rparr>;
                  (enc, w3) = Encode (EncoderDecoder option) re w2 in
              case enc of
                Inl err \<Rightarrow> ((None, errors_Wrap (Some err) ''Serialization request''), w3)
              | Inr cacheValue \<Rightarrow>
                  (let (ttl, w4) = CacheTTLFunc option req resp returnErr w3;
                       (_, w5) = Set (Cacher option) h cacheValue ttl w4
                   in ((resp, returnErr), w5)))))"

definition CacheHandler ::
  "'w CacheOption \<Rightarrow> Request option \<Rightarrow> 'w Downstream \<Rightarrow> 'w \<Rightarrow> Result \<times> 'w" where
  "CacheHandler option req handlerFunc w =
     (case cache_lookup option req w of
        (Some hit, w1) \<Rightarrow> (hit, w1)
      | (None, w1) \<Rightarrow>
          (let (res, w2) = handlerFunc req w1 in cache_store option req res w2))"

subsection \<open>The transaction codec of cache.go\<close>

record HTTPRequestResponse =
  Method :: string
  URL :: string
  RequestHeader :: "(string \<times> string) list"
  RequestBody :: string
  Status :: string
  StatusCode :: int
  Proto :: string
  ProtoMajor :: int
  ProtoMinor :: int
  ResponseHeader :: "(string \<times> string) list"
  ResponseBody :: string
  Error :: "string option"

text \<open>
  \<open>msgpack.Marshal\<close> and \<open>msgpack.Unmarshal\<close> (github.com/vmihailenco/msgpack) are
  parameters.
\<close>

record 'a msgpack =
  Marshal :: "'a \<Rightarrow> error + string"
  Unmarshal :: "string \<Rightarrow> error + 'a"

definition httpHeaderToMap :: "Header \<Rightarrow> (string \<times> string) list" where
  "httpHeaderToMap header =
     fold (\<lambda>(key, _) m. AList.update key (Header_Get header key) m) header []"

definition mapToHTTPHeader :: "(string \<times> string) list \<Rightarrow> Header" where
  "mapToHTTPHeader m = fold (\<lambda>(key, value) header. Header_Set header key value) m []"

text \<open>
  \<open>copyHTTPRequestBody\<close> and \<open>copyHTTPResponseBody\<close> of logger.go read the body and
  put a fresh reader over the same bytes in its place. Every caller tests that the body
  is not nil first: the second argument is that body.
\<close>

definition copyHTTPRequestBody :: "Request \<Rightarrow> Body \<Rightarrow> (error + string) \<times> Request" where
  "copyHTTPRequestBody req b =
     (case io_ReadAll b of
        Inl err \<Rightarrow> (Inl err, req)
      | Inr body \<Rightarrow> (Inr body, req\<lparr>Request.Body := Some (Reader body)\<rparr>))"

definition copyHTTPResponseBody :: "Response \<Rightarrow> Body \<Rightarrow> (error + string) \<times> Response" where
  "copyHTTPResponseBody resp b =
     (case io_ReadAll b of
        Inl err \<Rightarrow> (Inl err, resp)
      | Inr body \<Rightarrow> (Inr body, resp\<lparr>Response.Body := Some (Reader body)\<rparr>))"

text \<open>
  \<open>requestEntryEncoderDecoder.Encode\<close>. The struct \<open>e\<close> starts with the request part,
  gets the response part when there is a response and the error text when there is an
  error, and is marshalled.
\<close>

definition Encode_request_part :: "Request \<Rightarrow> URL \<Rightarrow> string \<Rightarrow> HTTPRequestResponse" where
  "Encode_request_part r u requestBody =
     \<lparr>HTTPRequestResponse.Method = Request.Method r,
      HTTPRequestResponse.URL = URL_String u,
      HTTPRequestResponse.RequestHeader = httpHeaderToMap (Request.Header r),
      HTTPRequestResponse.RequestBody = requestBody,
      HTTPRequestResponse.Status = [],
      HTTPRequestResponse.StatusCode = 0,
      HTTPRequestResponse.Proto = [],
      HTTPRequestResponse.ProtoMajor = 0,
      HTTPRequestResponse.ProtoMinor = 0,
      HTTPRequestResponse.ResponseHeader = [],
      HTTPRequestResponse.ResponseBody = [],
      HTTPRequestResponse.Error = None\<rparr>"

definition Encode_response_part ::
  "Response option \<Rightarrow> string \<Rightarrow> HTTPRequestResponse \<Rightarrow> HTTPRequestResponse" where
  "Encode_response_part w responseBody e =
     (case w of
        None \<Rightarrow> e
      | Some w \<Rightarrow>
          e\<lparr>HTTPRequestResponse.Status := Response.Status w,
            HTTPRequestResponse.StatusCode := Response.StatusCode w,
            HTTPRequestResponse.Proto := Response.Proto w,
            HTTPRequestResponse.ProtoMajor := Response.ProtoMajor w,
            HTTPRequestResponse.ProtoMinor := Response.ProtoMinor w,
            HTTPRequestResponse.ResponseHeader := httpHeaderToMap (Response.Header w),
            HTTPRequestResponse.ResponseBody := responseBody\<rparr>)"

definition Encode_error_part :: "error option \<Rightarrow> HTTPRequestResponse \<Rightarrow> HTTPRequestResponse" where
  "Encode_error_part err e =
     (case err of
        None \<Rightarrow> e
      | Some x \<Rightarrow> e\<lparr>HTTPRequestResponse.Error := Some (error_Error x)\<rparr>)"

definition requestEntryEncoderDecoder_Encode :: "HTTPRequestResponse msgpack \<Rightarrow> RequestEntry \<Rightarrow> error + string" where
  "requestEntryEncoderDecoder_Encode mp entry =
     (case RequestEntry.Request entry of
        None \<Rightarrow> Inl (errors_New ''Request not found in RequestEntry'')
      | Some r \<Rightarrow>
     (case Request.URL r of
        None \<Rightarrow> Inl (errors_New ''URL not found in RequestEntry'')
      | Some u \<Rightarrow>
     (case (case Request.Body r of
              None \<Rightarrow> Inr []
            | Some b \<Rightarrow> fst (copyHTTPRequestBody r b)) of
        Inl err \<Rightarrow> Inl err
      | Inr requestBody \<Rightarrow>
     (case (case RequestEntry.Response entry of
              None \<Rightarrow> Inr []
            | Some w \<Rightarrow>
                (case Response.Body w of
                   None \<Rightarrow> Inr []
                 | Some b \<Rightarrow> fst (copyHTTPResponseBody w b))) of
        Inl err \<Rightarrow> Inl err
      | Inr responseBody \<Rightarrow>
          Marshal mp
            (Encode_error_part (RequestEntry.Error entry)
              (Encode_response_part (RequestEntry.Response entry) responseBody
                (Encode_request_part r u requestBody)))))))"

text \<open>
  \<open>http.NewRequest(method, url, body)\<close> of the standard library: an empty method means
  GET, a method must be a token, the URL must parse; the new request has an empty
  header and the background context. \<open>url_Parse\<close>, a parameter, is \<open>url.Parse\<close>
  followed by the removal of an empty port that \<open>NewRequest\<close> does.
\<close>

definition validMethod :: "string \<Rightarrow> bool" where
  "validMethod method = (method \<noteq> [] \<and> list_all validHeaderFieldByte method)"

definition http_NewRequest ::
  "(string \<Rightarrow> error + URL) \<Rightarrow> string \<Rightarrow> string \<Rightarrow> Body \<Rightarrow> error + Request" where
  "http_NewRequest url_Parse method url body =
     (let method = (if method = [] then ''GET'' else method) in
      if \<not> validMethod method
      then Inl (Foreign (''net/http: invalid method '' @ strconv_Quote method))
      else case url_Parse url of
             Inl err \<Rightarrow> Inl err
           | Inr u \<Rightarrow>
               Inr \<lparr>Request.Method = method, Request.URL = Some u, Request.Header = [],
                    Request.Body = Some body, Request.ctx = Background\<rparr>)"

text \<open>\<open>requestEntryEncoderDecoder.Decode\<close>.\<close>

definition requestEntryEncoderDecoder_Decode ::
  "HTTPRequestResponse msgpack \<Rightarrow> (string \<Rightarrow> error + URL) \<Rightarrow> string \<Rightarrow> error + RequestEntry" where
  "requestEntryEncoderDecoder_Decode mp url_Parse value =
     (case Unmarshal mp value of
        Inl err \<Rightarrow> Inl err
      | Inr e \<Rightarrow>
     (case http_NewRequest url_Parse (HTTPRequestResponse.Method e) (HTTPRequestResponse.URL e)
             (Reader (HTTPRequestResponse.RequestBody e)) of
        Inl err \<Rightarrow> Inl err
      | Inr req \<Rightarrow>
          (let resp =
                 (if HTTPRequestResponse.StatusCode e > 0
                  then Some \<lparr>Response.Status = HTTPRequestResponse.Proto e,
                             Response.StatusCode = HTTPRequestResponse.StatusCode e,
                             Response.Proto = HTTPRequestResponse.Proto e,
                             Response.ProtoMajor = HTTPRequestResponse.ProtoMajor e,
                             Response.ProtoMinor = HTTPRequestResponse.ProtoMinor e,
                             Response.Header = mapToHTTPHeader (HTTPRequestResponse.ResponseHeader e),
                             Response.Body = Some (Reader (HTTPRequestResponse.ResponseBody e)),
                             Response.ContentLength = int (length (HTTPRequestResponse.ResponseBody e)),
                             Response.Request = Some req\<rparr>
                  else None);
               entryError =
                 (case HTTPRequestResponse.Error e of
                    None \<Rightarrow> None
                  | Some msg \<Rightarrow> Some (errors_New msg))
           in Inr \<lparr>RequestEntry.Request = Some req, RequestEntry.Response = resp,
                   RequestEntry.Error = entryError\<rparr>)))"

text \<open>The codec as the \<open>EncoderDecoder\<close> of a \<open>CacheOption\<close> (it has no side effect).\<close>

definition requestEntryEncoderDecoder ::
  "HTTPRequestResponse msgpack \<Rightarrow> (string \<Rightarrow> error + URL) \<Rightarrow> 'w RequestEntryEncoderDecoder" where
  "requestEntryEncoderDecoder mp url_Parse =
     \<lparr>Encode = (\<lambda>entry. pure (requestEntryEncoderDecoder_Encode mp entry)),
      Decode = (\<lambda>value. pure (requestEntryEncoderDecoder_Decode mp url_Parse value))\<rparr>"

subsection \<open>retry.go\<close>

text \<open>
  A backoff policy is a value of the interface \<open>backoff.BackOff\<close> of
  github.com/cenkalti/backoff: an object with a state \<open>'b\<close> and the methods \<open>Reset\<close>
  and \<open>NextBackOff\<close>, which may read the world (the clock). \<open>concrete\<close> is its dynamic
  type, which the type switch of \<open>newFromBackOff\<close> inspects; \<open>OtherBackOff\<close> is any
  type but the four of the switch.
\<close>

datatype BackOffType = ExponentialBackOff | ConstantBackOff | StopBackOff | ZeroBackOff | OtherBackOff

record ('b, 'w) BackOff =
  concrete :: BackOffType
  state :: 'b
  Reset :: "'b \<Rightarrow> 'w \<Rightarrow> 'b \<times> 'w"
  NextBackOff :: "'b \<Rightarrow> 'w \<Rightarrow> (Duration \<times> 'b) \<times> 'w"

text \<open>\<open>backoff.Stop\<close> is the duration \<open>-1\<close>.\<close>

definition Stop :: Duration where
  "Stop = - 1"

text \<open>
  Modelled from the spec: \<open>backoff.WithMaxRetries\<close> belongs to
  github.com/cenkalti/backoff and is not among the source files. The spec says that
  the cloned policy is "bounded to at most N additional attempts" and that "a sentinel
  stop value halts retrying": the wrapper counts the intervals it has handed out in
  \<open>numTries\<close>, answers \<open>Stop\<close> once \<open>maxTries\<close> of them have been handed out, and
  asks its delegate otherwise.
\<close>

record ('b, 'w) backOffTries =
  delegate :: "('b, 'w) BackOff"
  maxTries :: "64 word"
  numTries :: "64 word"

text \<open>
  Modelled from the spec: \<open>WithMaxRetries\<close> wraps the policy with the ceiling and no
  interval handed out yet.
\<close>

definition WithMaxRetries :: "('b, 'w) BackOff \<Rightarrow> 64 word \<Rightarrow> ('b, 'w) backOffTries" where
  "WithMaxRetries b n = \<lparr>delegate = b, maxTries = n, numTries = 0\<rparr>"

text \<open>
  Modelled from the spec: \<open>NextBackOff\<close> of the bounded policy answers \<open>Stop\<close> when the
  ceiling is 0 or reached, and otherwise counts one more interval and asks the delegate.
\<close>

definition backOffTries_NextBackOff ::
  "('b, 'w) backOffTries \<Rightarrow> 'w \<Rightarrow> (Duration \<times> ('b, 'w) backOffTries) \<times> 'w" where
  "backOffTries_NextBackOff b w =
     (if maxTries b = 0 then ((Stop, b), w)
      else if maxTries b \<le> numTries b then ((Stop, b), w)
      else
        (let b1 = b\<lparr>numTries := numTries b + 1\<rparr>;
             ((d, s), w1) = NextBackOff (delegate b1) (state (delegate b1)) w
         in ((d, b1\<lparr>delegate := (delegate b1)\<lparr>state := s\<rparr>\<rparr>), w1)))"

text \<open>
  What the Go runtime decides in \<open>sleepContext\<close>: \<open>select_Done c wait\<close> tells whether
  \<open>c.Done()\<close> is received before the timer of \<open>wait\<close> fires (time passes in the world),
  and \<open>ctx_Err c\<close> is \<open>c.Err()\<close>. The channel of the background context is nil and
  never received from.
\<close>

record 'w runtime =
  select_Done :: "Context \<Rightarrow> Duration \<Rightarrow> 'w \<Rightarrow> bool \<times> 'w"
  ctx_Err :: "Context \<Rightarrow> 'w \<Rightarrow> error"

definition getRequestContext :: "Request option \<Rightarrow> Context" where
  "getRequestContext req = (case req of Some r \<Rightarrow> Request.ctx r | None \<Rightarrow> Background)"

definition sleepContext :: "'w runtime \<Rightarrow> Context \<Rightarrow> Duration \<Rightarrow> 'w \<Rightarrow> error option \<times> 'w" where
  "sleepContext rt c wait w =
     (let (done, w1) = select_Done rt c wait w in
      if done \<and> c \<noteq> Background then (Some (ctx_Err rt c w1), w1) else (None, w1))"

text \<open>\<open>RetryOption\<close>; a nil \<open>RetryBackOff\<close> is \<open>None\<close>.\<close>

record ('b, 'w) RetryOption =
  ShouldRetryFunc :: "Request option \<Rightarrow> Response option \<Rightarrow> error option \<Rightarrow> 'w \<Rightarrow> bool \<times> 'w"
  MaxRetry :: "64 word"
  RetryBackOff :: "('b, 'w) BackOff option"

definition defaultShouldRetryFunc :: "Request option \<Rightarrow> Response option \<Rightarrow> error option \<Rightarrow> bool" where
  "defaultShouldRetryFunc req resp err =
     (let ok = (err = None \<and> (case resp of None \<Rightarrow> False | Some r \<Rightarrow> Response.StatusCode r < 500))
      in \<not> ok)"

text \<open>
  \<open>newFromBackOff\<close> copies a policy of one of the four known types and resets the
  copy; for any other type, and for nil, it panics.
\<close>

definition newFromBackOff ::
  "('b, 'w) BackOff option \<Rightarrow> 'w \<Rightarrow> string + ('b, 'w) BackOff \<times> 'w" where
  "newFromBackOff b w =
     (case b of
        None \<Rightarrow> Inl ''undefind backoff''
      | Some v \<Rightarrow>
          if concrete v = OtherBackOff then Inl ''undefind backoff''
          else (let (s, w1) = Reset v (state v) w in Inr (v\<lparr>state := s\<rparr>, w1)))"

text \<open>
  The closure \<open>fn\<close> of \<open>RetryHandler\<close>: one attempt and the decision to go on.
  \<open>deferred_cleanup\<close> is its deferred function, which drops the response when there
  is an error (closing its body). \<open>retry_fn\<close> returns whether the loop goes on, the
  values of \<open>resp\<close> and \<open>err\<close>, the backoff policy and the world.
\<close>

definition deferred_cleanup :: "Response option \<Rightarrow> error option \<Rightarrow> Result" where
  "deferred_cleanup resp err = (if err \<noteq> None \<and> resp \<noteq> None then (None, err) else (resp, err))"

definition retry_fn ::
  "('b, 'w) RetryOption \<Rightarrow> 'w runtime \<Rightarrow> Request option \<Rightarrow> 'w Downstream
    \<Rightarrow> ('b, 'w) backOffTries \<Rightarrow> 'w \<Rightarrow> bool \<times> Result \<times> ('b, 'w) backOffTries \<times> 'w" where
  "retry_fn option rt req handlerFunc b w =
     (let ((resp, err), w1) = handlerFunc req w;
          (should, w2) = ShouldRetryFunc option req resp err w1 in
      if \<not> should then (False, deferred_cleanup resp err, b, w2)
      else
        (let ((d, b1), w3) = backOffTries_NextBackOff b w2 in
         if d = Stop then (False, deferred_cleanup resp err, b1, w3)
         else
           (let (err2, w4) = sleepContext rt (getRequestContext req) d w3 in
            case err2 of
              Some e2 \<Rightarrow> (False, deferred_cleanup resp (errors_Wrap (Some e2) (fmt_v err)), b1, w4)
            | None \<Rightarrow> (True, deferred_cleanup resp err, b1, w4))))"

text \<open>
  The loop \<open>for fn() { }\<close>. It terminates because \<open>fn\<close> returns true only after the
  bounded policy has handed out one more interval.
\<close>

lemma unat_inc: "a < (m::64 word) \<Longrightarrow> unat (a + 1) = Suc (unat a)"
proof -
  assume "a < m"
  moreover have "m \<le> - 1" by simp
  ultimately have "a \<noteq> - 1" by auto
  then have "1 + a \<noteq> 0" by (simp add: add_eq_0_iff)
  then show ?thesis by (simp add: unatSuc add.commute)
qed

lemma NextBackOff_not_Stop:
  assumes "backOffTries_NextBackOff b w = ((d, b1), w1)" and "d \<noteq> Stop"
  shows "maxTries b1 = maxTries b \<and> numTries b < maxTries b \<and> numTries b1 = numTries b + 1"
  using assms
  by (auto simp: backOffTries_NextBackOff_def Let_def split: if_splits prod.splits)

lemma retry_fn_continue:
  assumes "retry_fn option rt req handlerFunc b w = (True, res, b1, w1)"
  shows "maxTries b1 = maxTries b \<and> numTries b < maxTries b \<and> numTries b1 = numTries b + 1"
  using assms NextBackOff_not_Stop
  by (fastforce simp: retry_fn_def Let_def split: if_splits prod.splits option.splits)

function retry_loop ::
  "('b, 'w) RetryOption \<Rightarrow> 'w runtime \<Rightarrow> Request option \<Rightarrow> 'w Downstream
    \<Rightarrow> ('b, 'w) backOffTries \<Rightarrow> 'w \<Rightarrow> Result \<times> 'w" where
  "retry_loop option rt req handlerFunc b w =
     (let (continue, res, b1, w1) = retry_fn option rt req handlerFunc b w in
      if continue then retry_loop option rt req handlerFunc b1 w1 else (res, w1))"
  by pat_completeness auto
termination
proof (relation "measure (\<lambda>(option, rt, req, handlerFunc, b, w). unat (maxTries b) - unat (numTries b))",
    goal_cases)
  case 1
  show ?case by simp
next
  case (2 option rt req handlerFunc b w x continue y res ya b1 w1)
  then have "retry_fn option rt req handlerFunc b w = (True, res, b1, w1)"
    by simp
  from retry_fn_continue [OF this]
  have m: "maxTries b1 = maxTries b" and lt: "numTries b < maxTries b"
    and n: "numTries b1 = numTries b + 1"
    by simp_all
  have "unat (numTries b) < unat (maxTries b)"
    using lt by (simp add: word_less_nat_alt)
  moreover have "unat (numTries b1) = Suc (unat (numTries b))"
    using lt n by (simp add: unat_inc)
  ultimately show ?case
    using m by simp
qed

declare retry_loop.simps [simp del]

text \<open>\<open>RetryHandler\<close>.\<close>

definition RetryHandler :: "('b, 'w) RetryOption \<Rightarrow> 'w runtime \<Rightarrow> 'w Handler" where
  "RetryHandler option rt req handlerFunc w =
     (if MaxRetry option = 0 then (let (res, w1) = handlerFunc req w in (Inr res, w1))
      else case newFromBackOff (RetryBackOff option) w of
             Inl msg \<Rightarrow> (Inl msg, w)
           | Inr (b, w1) \<Rightarrow>
               (let b = WithMaxRetries b (MaxRetry option);
                    (res, w2) = retry_loop option rt req handlerFunc b w1
                in (Inr res, w2)))"

subsection \<open>cacher.go\<close>

text \<open>
  A \<open>time.Time\<close> is taken in the range in which its \<open>UnixNano\<close> is defined (the years
  1678 to 2262) and is written as that number, a signed 64-bit count of nanoseconds.
  \<open>Add\<close> followed by \<open>UnixNano\<close> wraps around as the Go implementation does;
  \<open>time.Unix(sec, nsec)\<close> is the instant \<open>sec * 1e9 + nsec\<close>; \<open>Sub\<close> saturates at the
  smallest and the largest duration.
\<close>

type_synonym Time = "64 word"



definition time_Unix :: "int \<Rightarrow> int \<Rightarrow> Time" where
  "time_Unix sec nsec = word_of_int (sec * 1000000000 + nsec)"

definition time_Sub :: "Time \<Rightarrow> Time \<Rightarrow> Duration" where
  "time_Sub t u =
     (let d = sint t - sint u in
      if d > 2 ^ 63 - 1 then word_of_int (2 ^ 63 - 1)
      else if d < - (2 ^ 63) then word_of_int (- (2 ^ 63))
      else word_of_int d)"

text \<open>
  The world of the storage backends: the wall clock of the machine (\<open>time.Now\<close>), the
  files of the file system by path, what the operating system refuses, the items of
  the in-memory cache and the keys of the redis server (a value and, when the key
  expires, the instant of its expiry). \<open>refuses w op name\<close> is the error, if any, with
  which the operation \<open>op\<close> on the path \<open>name\<close> fails in the world \<open>w\<close> (no
  permission, a missing directory, a name that is too long, an input/output error), and
  \<open>leaves w name\<close> is what a refused write leaves at the path (no file, the old file
  or a truncated one). \<open>Item\<close> is an item of github.com/patrickmn/go-cache; its
  \<open>Expiration\<close> is 0 when the item does not expire.
\<close>

datatype fsop = OpStat | OpReadFile | OpWriteFile | OpRemove

record Item =
  Object :: string
  Expiration :: "64 word"

record world =
  wall :: Time
  files :: "string \<rightharpoonup> string"
  refuses :: "fsop \<Rightarrow> string \<Rightarrow> error option"
  leaves :: "string \<Rightarrow> string option"
  items :: "string \<rightharpoonup> Item"
  keys :: "string \<rightharpoonup> string \<times> Time option"








text \<open>\<open>FileCache\<close>; \<open>time.Now\<close> is its default clock and 0644 its default permission.\<close>

record FileCache =
  RootDir :: string
  TimeNowFunc :: "world \<Rightarrow> Time"
  Permission :: "32 word"


record fileCacheEntry =
  Key :: string
  Value :: string
  Start :: "64 word"
  TTL :: "64 word"

text \<open>
  The file system: an operation that the operating system refuses fails with the error
  of the refusal, as a \<open>fs.PathError\<close>. Where nothing is refused, \<open>os.Stat\<close>,
  \<open>os.ReadFile\<close> and \<open>os.Remove\<close> fail exactly on a path that has no file, with
  \<open>fs.ErrNotExist\<close>, and \<open>os.WriteFile\<close> creates or replaces the file.
\<close>

definition os_Stat :: "string \<Rightarrow> world \<Rightarrow> error option" where
  "os_Stat name w =
     (case refuses w OpStat name of
        Some e \<Rightarrow> Some (PathError ''stat'' name e)
      | None \<Rightarrow>
          (case files w name of
             None \<Rightarrow> Some (PathError ''stat'' name fs_ErrNotExist)
           | Some _ \<Rightarrow> None))"

definition os_ReadFile :: "string \<Rightarrow> world \<Rightarrow> error + string" where
  "os_ReadFile name w =
     (case refuses w OpReadFile name of
        Some e \<Rightarrow> Inl (PathError ''open'' name e)
      | None \<Rightarrow>
          (case files w name of
             None \<Rightarrow> Inl (PathError ''open'' name fs_ErrNotExist)
           | Some data \<Rightarrow> Inr data))"


definition os_Remove :: "string \<Rightarrow> world \<Rightarrow> error option \<times> world" where
  "os_Remove name w =
     (case refuses w OpRemove name of
        Some e \<Rightarrow> (Some (PathError ''remove'' name e), w)
      | None \<Rightarrow>
          (case files w name of
             None \<Rightarrow> (Some (PathError ''remove'' name fs_ErrNotExist), w)
           | Some _ \<Rightarrow> (None, w\<lparr>files := (files w)(name := None)\<rparr>)))"

definition os_IsNotExist :: "error \<Rightarrow> bool" where
  "os_IsNotExist err =
     (case err of PathError op name e \<Rightarrow> e = fs_ErrNotExist | e \<Rightarrow> e = fs_ErrNotExist)"

text \<open>
  \<open>FileCache.path\<close>, \<open>FileCache.Get\<close> and \<open>FileCache.Set\<close>. \<open>path_Join\<close> is \<open>path.Join\<close>
  of the standard library and \<open>mp\<close> the msgpack codec, both parameters.
\<close>

definition FileCache_path :: "(string \<Rightarrow> string \<Rightarrow> string) \<Rightarrow> FileCache \<Rightarrow> string \<Rightarrow> string" where
  "FileCache_path path_Join c key = path_Join (RootDir c) (key @ ''.cache'')"

definition FileCache_Get ::
  "(string \<Rightarrow> string \<Rightarrow> string) \<Rightarrow> fileCacheEntry msgpack \<Rightarrow> FileCache \<Rightarrow> string \<Rightarrow> world
    \<Rightarrow> (error + string) \<times> world" where
  "FileCache_Get path_Join mp c key w =
     (let path = FileCache_path path_Join c key in
      case os_Stat path w of
        Some err \<Rightarrow>
          if os_IsNotExist err then (Inl ErrCacheKeyNotFound, w)
          else (Inl (withMessage err
                  (''Error checking if file exists, cache key '' @ [CHR 0x27] @ key @ [CHR 0x27])), w)
      | None \<Rightarrow>
     (case os_ReadFile path w of
        Inl err \<Rightarrow>
          (Inl (withMessage err
             (''Error reading file contents, cache key '' @ [CHR 0x27] @ key @ [CHR 0x27])), w)
      | Inr data \<Rightarrow>
     (case Unmarshal mp data of
        Inl err \<Rightarrow>
          (Inl (withMessage err
             (''Error deserializing cached data, cache key '' @ [CHR 0x27] @ key @ [CHR 0x27])), w)
      | Inr e \<Rightarrow>
          (let nsec = sint (TTL e);
               ttl = time_Unix (nsec sdiv 1000000000) (nsec smod 1000000000)
           in if 0 \<le> sint (time_Sub ttl (TimeNowFunc c w)) then (Inr (Value e), w)
              else
                (case os_Remove path w of
                   (Some err, w1) \<Rightarrow>
                     (Inl (withMessage err
                        (''Error deleting an expired file, cache key '' @ [CHR 0x27] @ key @ [CHR 0x27])), w1)
                 | (None, w1) \<Rightarrow> (Inl ErrCacheKeyNotFound, w1))))))"









subsection \<open>Instrumented and concrete values used to state and instantiate the theorems\<close>

text \<open>
  \<open>counting_cacher c\<close> is the cacher \<open>c\<close> with a counter of its \<open>Get\<close> and \<open>Set\<close>
  calls added to the world.
\<close>

definition counting_cacher :: "'w Cacher \<Rightarrow> (nat \<times> 'w) Cacher" where
  "counting_cacher c =
     \<lparr>Get = (\<lambda>key (n, w). let (r, w1) = Get c key w in (r, (Suc n, w1))),
      Set = (\<lambda>key value ttl (n, w). let (r, w1) = Set c key value ttl w in (r, (Suc n, w1)))\<rparr>"

text \<open>A response that declares eleven bytes, as in body\_size\_test.go.\<close>

definition resp11 :: Response where
  "resp11 =
     \<lparr>Response.Status = [], Response.StatusCode = 200, Response.Proto = [],
      Response.ProtoMajor = 0, Response.ProtoMinor = 0,
      Response.Header = [(''Content-Length'', [''11''])],
      Response.Body = Some (Reader ''hello world''), Response.ContentLength = 0,
      Response.Request = None\<rparr>"

text \<open>
  Two cache options over a world that counts the downstream calls: the cacher of
  \<open>option_hit\<close> holds a decodable value under every key, that of \<open>option_miss\<close>
  holds nothing. \<open>failing_downstream\<close> is a downstream call that fails.
\<close>

definition cached_entry :: RequestEntry where
  "cached_entry =
     \<lparr>RequestEntry.Request = None, RequestEntry.Response = None,
      RequestEntry.Error = Some (Foreign ''cached'')\<rparr>"

definition option_hit :: "nat CacheOption" where
  "option_hit =
     \<lparr>ShouldCacheFunc = (\<lambda>req resp err. pure False),
      RequestHashFunc = (\<lambda>req resp err. pure (Some ''k'')),
      CacheTTLFunc = (\<lambda>req resp err. pure 0),
      Cacher = \<lparr>Get = (\<lambda>key. pure (Inr ''v'')), Set = (\<lambda>key value ttl. pure None)\<rparr>,
      EncoderDecoder =
        \<lparr>Encode = (\<lambda>entry. pure (Inl (Foreign ''encode''))),
         Decode = (\<lambda>value. pure (Inr cached_entry))\<rparr>\<rparr>"

definition option_miss :: "nat CacheOption" where
  "option_miss =
     option_hit\<lparr>Cacher :=
       \<lparr>Get = (\<lambda>key. pure (Inl ErrCacheKeyNotFound)), Set = (\<lambda>key value ttl. pure None)\<rparr>\<rparr>"

definition failing_downstream :: "nat Downstream" where
  "failing_downstream req n = ((None, Some (Foreign ''down'')), Suc n)"

text \<open>A POST request, and \<open>option_hit\<close> with the default request hash function.\<close>

definition post_request :: Request where
  "post_request =
     \<lparr>Request.Method = ''POST'', Request.URL = Some (URL.URL ''https://example.com''),
      Request.Header = [], Request.Body = None, Request.ctx = Background\<rparr>"

definition option_default_hash :: "(string \<Rightarrow> string) \<Rightarrow> (string \<Rightarrow> string) \<Rightarrow> nat CacheOption" where
  "option_default_hash sha1_Sum base64_URLEncoding =
     option_hit\<lparr>RequestHashFunc :=
       (\<lambda>req resp err. pure (DefaultRequestHashFunc sha1_Sum base64_URLEncoding req resp err)),
       ShouldCacheFunc := (\<lambda>req resp err. pure True)\<rparr>"

text \<open>
  Values of retry\_test.go: a constant backoff, a backoff of a type that the switch
  does not know (\<open>testBackOff\<close>), an option that always asks for a retry, a runtime in
  which every context is cancelled before any timer fires, one in which no context is
  ever done, and a request with a context of its own.
\<close>

definition ConstantBackOff_of :: "Duration \<Rightarrow> (unit, 'w) BackOff" where
  "ConstantBackOff_of d =
     \<lparr>concrete = ConstantBackOff, state = (), Reset = (\<lambda>s. pure s), NextBackOff = (\<lambda>s. pure (d, s))\<rparr>"


definition retry_always :: "64 word \<Rightarrow> (unit, 'w) BackOff \<Rightarrow> (unit, 'w) RetryOption" where
  "retry_always k bo =
     \<lparr>ShouldRetryFunc = (\<lambda>req resp err. pure True), MaxRetry = k, RetryBackOff = Some bo\<rparr>"

definition cancelled_runtime :: "'w runtime" where
  "cancelled_runtime = \<lparr>select_Done = (\<lambda>c d. pure True), ctx_Err = (\<lambda>c w. context_Canceled)\<rparr>"


definition cancellable_request :: Request where
  "cancellable_request =
     \<lparr>Request.Method = ''GET'', Request.URL = Some (URL.URL ''https://example.com''),
      Request.Header = [], Request.Body = None, Request.ctx = Ctx 0\<rparr>"

text \<open>
  For the examples of the storage backends: a codec that knows one value (it stands for msgpack on that value), a path join
  that puts a slash between directory and name, and a world without files, items or
  keys, in which nothing is refused and whose clock shows \<open>t\<close>.
\<close>

definition one_value_codec :: "'a \<Rightarrow> 'a msgpack" where
  "one_value_codec e =
     \<lparr>Marshal = (\<lambda>x. if x = e then Inr ''entry'' else Inl (Foreign ''msgpack: unsupported'')),
      Unmarshal = (\<lambda>data. if data = ''entry'' then Inr e else Inl (Foreign ''msgpack: invalid code''))\<rparr>"



text \<open>
  \<open>encoded_struct t r u rb wb\<close> is the struct that \<open>Encode\<close> marshals for the entry
  \<open>t\<close> with request \<open>r\<close> and URL \<open>u\<close> when the request body reads as \<open>rb\<close> and the
  response body as \<open>wb\<close>.
\<close>

definition encoded_struct :: "RequestEntry \<Rightarrow> Request \<Rightarrow> URL \<Rightarrow> string \<Rightarrow> string \<Rightarrow> HTTPRequestResponse" where
  "encoded_struct t r u rb wb =
     Encode_error_part (RequestEntry.Error t)
       (Encode_response_part (RequestEntry.Response t) wb (Encode_request_part r u rb))"

text \<open>
  A transaction as in cache\_test.go, with a request header and a response header of two
  values; \<open>parse_any\<close> parses every string as a URL; \<open>example_codec\<close> stands for
  msgpack on the struct of this transaction.
\<close>

definition parse_any :: "string \<Rightarrow> error + URL" where
  "parse_any s = Inr (URL.URL s)"

definition example_request :: Request where
  "example_request =
     \<lparr>Request.Method = ''GET'', Request.URL = Some (URL.URL ''https://example.com''),
      Request.Header = [(''X-Test'', [''1''])], Request.Body = None, Request.ctx = Background\<rparr>"

definition example_response :: Response where
  "example_response =
     \<lparr>Response.Status = [], Response.StatusCode = 200, Response.Proto = [],
      Response.ProtoMajor = 0, Response.ProtoMinor = 0,
      Response.Header = [(''X-Multi'', [''a'', ''b''])],
      Response.Body = Some (Reader ''hello world''), Response.ContentLength = 0,
      Response.Request = None\<rparr>"

definition example_entry :: RequestEntry where
  "example_entry =
     \<lparr>RequestEntry.Request = Some example_request,
      RequestEntry.Response = Some example_response,
      RequestEntry.Error = None\<rparr>"

definition example_codec :: "HTTPRequestResponse msgpack" where
  "example_codec =
     one_value_codec
       (encoded_struct example_entry example_request (URL.URL ''https://example.com'') []
          ''hello world'')"



text \<open>A runtime in which every context passes its deadline before any timer fires.\<close>

definition deadline_runtime :: "'w runtime" where
  "deadline_runtime =
     \<lparr>select_Done = (\<lambda>c d. pure True), ctx_Err = (\<lambda>c w. context_DeadlineExceeded)\<rparr>"

subsection \<open>Properties of the chain composer\<close>

lemma chain_loop_Cons:
  "Suc i < length (h0 # h # hs) \<Longrightarrow>
   chain_loop (h0 # h # hs) (Suc i) c = (\<lambda>req. h req (chain_loop (h # hs) i c))"
proof (induction i arbitrary: c)
  case 0
  then show ?case by simp
next
  case (Suc i)
  have "chain_loop (h0 # h # hs) (Suc (Suc i)) c =
        chain_loop (h0 # h # hs) (Suc i) (\<lambda>req. ((h0 # h # hs) ! Suc (Suc i)) req c)"
    by simp
  also have "\<dots> = (\<lambda>req. h req (chain_loop (h # hs) i (\<lambda>req. ((h0 # h # hs) ! Suc (Suc i)) req c)))"
    using Suc.prems by (intro Suc.IH) simp
  also have "\<dots> = (\<lambda>req. h req (chain_loop (h # hs) (Suc i) c))"
    by simp
  finally show ?case .
qed

lemma Chain_Nil: "ChainRequestHandlers [] req T = T req"
  by (simp add: ChainRequestHandlers_def noOpRequestHandler_def)

lemma Chain_single: "ChainRequestHandlers [h] = h"
  by (simp add: ChainRequestHandlers_def)

lemma Chain_Cons:
  "ChainRequestHandlers (h # hs) req T = h req (\<lambda>r. ChainRequestHandlers hs r T)"
proof (cases hs)
  case Nil
  then show ?thesis
    by (simp add: ChainRequestHandlers_def noOpRequestHandler_def)
next
  case (Cons h1 hs1)
  show ?thesis
  proof (cases hs1)
    case Nil
    with Cons show ?thesis
      by (simp add: ChainRequestHandlers_def)
  next
    case (Cons h2 hs2)
    have "chain_loop (h # h1 # h2 # hs2) (Suc (Suc (length hs2))) T =
          (\<lambda>req. h1 req (chain_loop (h1 # h2 # hs2) (Suc (length hs2)) T))"
      using chain_loop_Cons [of "Suc (length hs2)" h h1 "h2 # hs2" T] by simp
    with Cons \<open>hs = h1 # hs1\<close> show ?thesis
      by (simp add: ChainRequestHandlers_def)
  qed
qed

lemma Chain_foldr:
  "ChainRequestHandlers hs req T = foldr (\<lambda>h next r. h r next) hs T req"
  by (induction hs arbitrary: req) (simp_all add: Chain_Nil Chain_Cons)

lemma Chain_passing_log:
  "fst (snd (ChainRequestHandlers (map passing_of specs) req (terminal eT T) (log, s))) =
     log @ map fst specs @ [eT]"
proof (induction specs arbitrary: req log s)
  case Nil
  then show ?case
    by (simp add: Chain_Nil terminal_def split: prod.splits)
next
  case (Cons sp specs)
  obtain e pre post where sp: "sp = (e, pre, post)"
    by (cases sp) auto
  obtain req' s1 where p: "pre req s = (req', s1)"
    by (cases "pre req s") auto
  obtain r log2 s2 where n:
    "ChainRequestHandlers (map passing_of specs) req' (terminal eT T) (log @ [e], s1) = (r, log2, s2)"
    by (cases "ChainRequestHandlers (map passing_of specs) req' (terminal eT T) (log @ [e], s1)") auto
  have "log2 = (log @ [e]) @ map fst specs @ [eT]"
    using Cons.IH [of req' "log @ [e]" s1] n by simp
  then show ?case
    by (simp add: sp Chain_Cons passing_def p n split: prod.splits)
qed

text \<open>
  Claim C1. For every ordered list of interceptors \<open>h1, ..., hn\<close> and terminal call
  \<open>T\<close>, the handler built by \<open>ChainRequestHandlers\<close> runs \<open>h1\<close> with its next-callable
  wired to the composition of \<open>h2, ..., hn, T\<close>; with no interceptor it is \<open>T\<close> itself and
  with one interceptor it is that interceptor. When every interceptor calls its
  next-callable, the entries recorded during one traversal are exactly
  \<open>h1, h2, ..., hn\<close> and then \<open>T\<close>, each once.
\<close>

theorem C1_chain_order:
  "ChainRequestHandlers [] req T = T req \<and>
   ChainRequestHandlers [h] = h \<and>
   ChainRequestHandlers (h # hs) req T = h req (\<lambda>r. ChainRequestHandlers hs r T) \<and>
   ChainRequestHandlers hs req T = foldr (\<lambda>h next r. h r next) hs T req \<and>
   fst (snd (ChainRequestHandlers (map passing_of specs) rq (terminal eT T') ([], s))) =
     map fst specs @ [eT]"
  using Chain_passing_log [of specs rq eT T' "[]" s]
  by (simp add: Chain_Nil Chain_single Chain_Cons Chain_foldr)

subsection \<open>Properties of the body size limit\<close>

lemma canon_Content_Length: "CanonicalMIMEHeaderKey ''Content-Length'' = ''Content-Length''"
  by code_simp

lemma canon_X_Test: "CanonicalMIMEHeaderKey ''X-Test'' = ''X-Test''"
  by code_simp

lemma parse_resp11: "ParseUint (Header_Get (Response.Header resp11) ''Content-Length'') = Inr 11"
  by (simp add: resp11_def Header_Get_def canon_Content_Length ParseUint_def)

text \<open>
  Claim C9. When the downstream call returns a response without error and the
  response declares a content length (its \<open>Content-Length\<close> header parses as an
  unsigned 64-bit number \<open>n\<close>): if \<open>n\<close> exceeds \<open>MaxBodySize\<close>, \<open>BodySizeHandler\<close>
  returns a nil response and the error "The server response data is too large", an
  error of its own making and not one returned by the downstream call; otherwise the
  response is returned unchanged, without error. An error of the downstream call (a
  transport error) is returned as it is.
\<close>

theorem C9_body_size:
  assumes down: "handlerFunc req w = ((Some r, None), w1)"
    and declared: "ParseUint (Header_Get (Response.Header r) ''Content-Length'') = Inr n"
  shows "(n > MaxBodySize option \<longrightarrow>
            BodySizeHandler option req handlerFunc w =
              (Inr (None, Some (errors_New ''The server response data is too large'')), w1)) \<and>
         (n \<le> MaxBodySize option \<longrightarrow>
            BodySizeHandler option req handlerFunc w = (Inr (Some r, None), w1)) \<and>
         (\<forall>resp0 e w0 w2. handlerFunc req w0 = ((resp0, Some e), w2) \<longrightarrow>
            BodySizeHandler option req handlerFunc w0 = (Inr (resp0, Some e), w2))"
  using assms by (auto simp add: BodySizeHandler_def)

theorem C9_body_size_witness:
  "BodySizeHandler (NewBodySizeOption 10) None (\<lambda>req. pure (Some resp11, None)) () =
     (Inr (None, Some (errors_New ''The server response data is too large'')), ()) \<and>
   BodySizeHandler (NewBodySizeOption 11) None (\<lambda>req. pure (Some resp11, None)) () =
     (Inr (Some resp11, None), ())"
  using C9_body_size [of "\<lambda>req. pure (Some resp11, None)" None "()" resp11 "()" 11 "NewBodySizeOption 10"]
        C9_body_size [of "\<lambda>req. pure (Some resp11, None)" None "()" resp11 "()" 11 "NewBodySizeOption 11"]
  by (simp add: parse_resp11 pure_def NewBodySizeOption_def)

subsection \<open>Properties of the header flattening\<close>

lemma map_of_fold_update:
  "map_of (fold (\<lambda>(key, _) m. AList.update key (f key) m) xs m0) k =
     (if k \<in> fst ` set xs then Some (f k) else map_of m0 k)"
  by (induction xs arbitrary: m0) (auto simp: update_conv')

lemma map_of_httpHeaderToMap:
  "map_of (httpHeaderToMap header) k =
     (if k \<in> fst ` set header then Some (Header_Get header k) else None)"
  by (simp add: httpHeaderToMap_def map_of_fold_update)

text \<open>
  Claim C7, as stated: a header name that carried several values is recorded with its
  last-written value. It fails: \<open>X-Test\<close> written with \<open>a\<close> and then \<open>b\<close> is recorded
  with \<open>a\<close>.
\<close>

theorem C7_counterexample:
  "map_of (httpHeaderToMap [(''X-Test'', [''a'', ''b''])]) ''X-Test'' \<noteq> Some (last [''a'', ''b''])"
  by (simp add: map_of_httpHeaderToMap Header_Get_def canon_X_Test)

text \<open>
  Claim C7, amended. When \<open>Encode\<close> flattens the request or the response header into
  the one-value-per-name mapping of the serialized form, a header name (in canonical
  form) that carried several values is recorded with its first value.
\<close>

theorem C7_first_value:
  assumes "distinct (map fst header)" and "(k, v # vs) \<in> set header"
    and "CanonicalMIMEHeaderKey k = k"
  shows "map_of (httpHeaderToMap header) k = Some v \<and>
         HTTPRequestResponse.RequestHeader
           (Encode_request_part (r\<lparr>Request.Header := header\<rparr>) u rb) = httpHeaderToMap header \<and>
         HTTPRequestResponse.ResponseHeader
           (Encode_response_part (Some (rs\<lparr>Response.Header := header\<rparr>)) wb e) =
             httpHeaderToMap header"
proof -
  have "map_of header k = Some (v # vs)"
    using assms(1,2) by simp
  then have "Header_Get header k = v"
    by (simp add: Header_Get_def assms(3))
  moreover have "k \<in> fst ` set header"
    using assms(2) by force
  ultimately show ?thesis
    by (simp add: map_of_httpHeaderToMap Encode_request_part_def Encode_response_part_def)
qed

theorem C7_first_value_witness:
  "map_of (httpHeaderToMap [(''X-Test'', [''a'', ''b''])]) ''X-Test'' = Some ''a''"
  using C7_first_value [of "[(''X-Test'', [''a'', ''b''])]" "''X-Test''" "''a''" "[''b'']"]
  by (simp add: canon_X_Test)

subsection \<open>Properties of the cache interceptor\<close>

lemma DefaultRequestHashFunc_eq:
  "DefaultRequestHashFunc sha b64 req resp err =
     (case req of
        None \<Rightarrow> None
      | Some r \<Rightarrow>
          (case Request.URL r of
             None \<Rightarrow> None
           | Some u \<Rightarrow>
               if Request.Method r = ''GET'' then Some (b64 (sha (URL_String u))) else None))"
  by (simp add: DefaultRequestHashFunc_def split: option.splits)

lemma CacheHandler_no_fingerprint:
  assumes "\<And>resp err w. RequestHashFunc option req resp err w = (None, w)"
  shows "CacheHandler option req handlerFunc w =
     (let ((resp, err), w1) = handlerFunc req w;
          (shouldCache, w2) = ShouldCacheFunc option req resp err w1
      in ((resp, err), w2))"
  by (simp add: CacheHandler_def cache_lookup_def cache_store_def assms Let_def split: prod.splits)

lemma cache_lookup_hit:
  assumes "RequestHashFunc option req None None w = (Some h, w1)"
    and "Get (Cacher option) h w1 = (Inr v, w2)"
    and "Decode (EncoderDecoder option) v w2 = (Inr re, w3)"
  shows "cache_lookup option req w = (Some (RequestEntry.Response re, RequestEntry.Error re), w3)"
  using assms by (simp add: cache_lookup_def)

lemma cache_lookup_get_error:
  assumes "RequestHashFunc option req None None w = (Some h, w1)"
    and "Get (Cacher option) h w1 = (Inl e, w2)"
  shows "cache_lookup option req w = (None, w2)"
  using assms by (simp add: cache_lookup_def)

lemma cache_lookup_decode_error:
  assumes "RequestHashFunc option req None None w = (Some h, w1)"
    and "Get (Cacher option) h w1 = (Inr v, w2)"
    and "Decode (EncoderDecoder option) v w2 = (Inl e, w3)"
  shows "cache_lookup option req w = (None, w3)"
  using assms by (simp add: cache_lookup_def)

lemma cache_store_result:
  "fst (cache_store option req res w) = res \<or>
   (\<exists>err re w'. fst (Encode (EncoderDecoder option) re w') = Inl err \<and>
      fst (cache_store option req res w) = (None, Some (withMessage err ''Serialization request'')))"
proof -
  obtain resp returnErr where res: "res = (resp, returnErr)" by (cases res) auto
  obtain sc w1 where sc: "ShouldCacheFunc option req resp returnErr w = (sc, w1)"
    by (cases "ShouldCacheFunc option req resp returnErr w") auto
  obtain hash w2 where hash: "RequestHashFunc option req resp returnErr w1 = (hash, w2)"
    by (cases "RequestHashFunc option req resp returnErr w1") auto
  obtain enc w3 where enc:
    "Encode (EncoderDecoder option) \<lparr>Request = req, Response = resp, Error = returnErr\<rparr> w2 = (enc, w3)"
    by (cases "Encode (EncoderDecoder option) \<lparr>Request = req, Response = resp, Error = returnErr\<rparr> w2") auto
  show ?thesis
  proof (cases "sc \<and> hash \<noteq> None \<and> isl enc")
    case True
    then obtain h err where "hash = Some h" "enc = Inl err"
      by (cases hash; cases enc) auto
    with True res sc hash enc have
      "fst (cache_store option req res w) = (None, Some (withMessage err ''Serialization request''))"
      by (simp add: cache_store_def errors_Wrap_def)
    moreover have "fst (Encode (EncoderDecoder option) \<lparr>Request = req, Response = resp, Error = returnErr\<rparr> w2) = Inl err"
      using enc \<open>enc = Inl err\<close> by simp
    ultimately show ?thesis by blast
  next
    case False
    then have "fst (cache_store option req res w) = res"
      using res sc hash enc
      by (cases hash; cases enc) (auto simp: cache_store_def split: prod.splits)
    then show ?thesis by simp
  qed
qed

text \<open>
  Claim C4. For a request whose fingerprint is not nil: when \<open>Get\<close> succeeds and the
  stored bytes decode, \<open>CacheHandler\<close> returns the decoded entry's response and error,
  whatever the downstream handler is (it is not invoked); when \<open>Get\<close> returns an error,
  or the stored bytes do not decode, \<open>CacheHandler\<close> invokes the downstream handler
  once and goes on with its result, and what it returns is that result or a
  serialization error of the later \<open>Encode\<close>, never the error of \<open>Get\<close> or \<open>Decode\<close>.
\<close>

theorem C4_cache_hit_miss:
  assumes fp: "RequestHashFunc option req None None w = (Some h, w1)"
  shows "(\<forall>v w2 re w3.
            Get (Cacher option) h w1 = (Inr v, w2) \<longrightarrow>
            Decode (EncoderDecoder option) v w2 = (Inr re, w3) \<longrightarrow>
            (\<forall>handlerFunc. CacheHandler option req handlerFunc w =
               ((RequestEntry.Response re, RequestEntry.Error re), w3))) \<and>
         (\<forall>e w2.
            Get (Cacher option) h w1 = (Inl e, w2) \<longrightarrow>
            CacheHandler option req handlerFunc w =
              (case handlerFunc req w2 of (res, w') \<Rightarrow> cache_store option req res w')) \<and>
         (\<forall>v w2 e w3.
            Get (Cacher option) h w1 = (Inr v, w2) \<longrightarrow>
            Decode (EncoderDecoder option) v w2 = (Inl e, w3) \<longrightarrow>
            CacheHandler option req handlerFunc w =
              (case handlerFunc req w3 of (res, w') \<Rightarrow> cache_store option req res w')) \<and>
         (\<forall>res w'. fst (cache_store option req res w') = res \<or>
            (\<exists>err re w''. fst (Encode (EncoderDecoder option) re w'') = Inl err \<and>
               fst (cache_store option req res w') =
                 (None, Some (withMessage err ''Serialization request''))))"
  using cache_lookup_hit [OF fp] cache_lookup_get_error [OF fp] cache_lookup_decode_error [OF fp]
    cache_store_result [of option req]
  by (simp add: CacheHandler_def)

theorem C4_cache_hit_miss_witness:
  "CacheHandler option_hit None failing_downstream 0 = ((None, Some (Foreign ''cached'')), 0) \<and>
   CacheHandler option_miss None failing_downstream 0 = ((None, Some (Foreign ''down'')), 1)"
  using C4_cache_hit_miss [of option_hit None 0 "''k''" 0 failing_downstream]
    C4_cache_hit_miss [of option_miss None 0 "''k''" 0 failing_downstream]
  by (simp add: option_hit_def option_miss_def pure_def cached_entry_def failing_downstream_def
      cache_store_def)

lemma lift_counter: "fst (snd (lift f (n, w))) = n"
  by (simp add: lift_def split: prod.splits)

text \<open>
  Claim C5. The default request hash function returns a fingerprint exactly for a
  non-nil request with a non-nil URL and method GET, and the fingerprint is the
  base64-URL encoding of the SHA-1 digest of the URL string. For a request with another
  method, \<open>CacheHandler\<close> with the default hash function does the downstream call and
  asks \<open>ShouldCacheFunc\<close>, and nothing else: whatever \<open>ShouldCacheFunc\<close> answers (so
  whatever the status code), the cacher's \<open>Get\<close> and \<open>Set\<close> are not called.
\<close>

theorem C5_default_hash:
  assumes dflt: "RequestHashFunc option =
      (\<lambda>req resp err. pure (DefaultRequestHashFunc sha1_Sum base64_URLEncoding req resp err))"
    and nonget: "Request.Method r \<noteq> ''GET''"
  shows "DefaultRequestHashFunc sha1_Sum base64_URLEncoding rq resp err =
           (case rq of
              None \<Rightarrow> None
            | Some g \<Rightarrow>
                (case Request.URL g of
                   None \<Rightarrow> None
                 | Some u \<Rightarrow>
                     if Request.Method g = ''GET''
                     then Some (base64_URLEncoding (sha1_Sum (URL_String u))) else None)) \<and>
         DefaultRequestHashFunc sha1_Sum base64_URLEncoding (Some r) resp err = None \<and>
         CacheHandler option (Some r) handlerFunc w =
           (let ((resp, err), w1) = handlerFunc (Some r) w;
                (shouldCache, w2) = ShouldCacheFunc option (Some r) resp err w1
            in ((resp, err), w2)) \<and>
         fst (snd (CacheHandler
            \<lparr>ShouldCacheFunc = (\<lambda>req resp err. lift (sc req resp err)),
             RequestHashFunc =
               (\<lambda>req resp err. pure (DefaultRequestHashFunc sha1_Sum base64_URLEncoding req resp err)),
             CacheTTLFunc = ttl,
             Cacher = counting_cacher c,
             EncoderDecoder = ed\<rparr>
            (Some r) (\<lambda>req. lift (hf req)) (n, w'))) = n"
proof -
  have h: "DefaultRequestHashFunc sha1_Sum base64_URLEncoding (Some r) resp' err' = None"
    for resp' err'
    using nonget by (simp add: DefaultRequestHashFunc_eq split: option.splits)
  have 1: "CacheHandler option (Some r) handlerFunc w =
           (let ((resp, err), w1) = handlerFunc (Some r) w;
                (shouldCache, w2) = ShouldCacheFunc option (Some r) resp err w1
            in ((resp, err), w2))"
    by (rule CacheHandler_no_fingerprint) (simp add: dflt h pure_def)
  let ?o = "\<lparr>ShouldCacheFunc = (\<lambda>req resp err. lift (sc req resp err)),
             RequestHashFunc =
               (\<lambda>req resp err. pure (DefaultRequestHashFunc sha1_Sum base64_URLEncoding req resp err)),
             CacheTTLFunc = ttl,
             Cacher = counting_cacher c,
             EncoderDecoder = ed\<rparr>"
  have "CacheHandler ?o (Some r) (\<lambda>req. lift (hf req)) (n, w') =
           (let ((resp, err), w1) = lift (hf (Some r)) (n, w');
                (shouldCache, w2) = ShouldCacheFunc ?o (Some r) resp err w1
            in ((resp, err), w2))"
    by (rule CacheHandler_no_fingerprint) (simp add: h pure_def)
  then have 2: "fst (snd (CacheHandler ?o (Some r) (\<lambda>req. lift (hf req)) (n, w'))) = n"
    by (simp add: lift_def split: prod.splits)
  show ?thesis
    using h 1 2 by (simp add: DefaultRequestHashFunc_eq)
qed

theorem C5_default_hash_witness:
  "CacheHandler (option_default_hash (\<lambda>s. s) (\<lambda>s. s)) (Some post_request) failing_downstream 0 =
     ((None, Some (Foreign ''down'')), 1)"
  using C5_default_hash [of "option_default_hash (\<lambda>s. s) (\<lambda>s. s)" "\<lambda>s. s" "\<lambda>s. s" post_request
      None None None failing_downstream 0, THEN conjunct2, THEN conjunct2, THEN conjunct1]
  by (simp add: option_default_hash_def option_hit_def post_request_def failing_downstream_def pure_def)

subsection \<open>Properties of the retry controller\<close>




lemma retry_loop_returns:
  "retry_fn option rt req handlerFunc b w = (False, res, b1, w1) \<Longrightarrow>
   retry_loop option rt req handlerFunc b w = (res, w1)"
  by (subst retry_loop.simps) simp

lemma retry_loop_goes_on:
  "retry_fn option rt req handlerFunc b w = (True, res, b1, w1) \<Longrightarrow>
   retry_loop option rt req handlerFunc b w = retry_loop option rt req handlerFunc b1 w1"
  by (subst retry_loop.simps) simp

lemma errors_Is_refl: "errors_Is e e"
  by (cases e) simp_all





text \<open>
  Claim C3, as stated (when the context of the request fires during the wait between
  attempts, the error returned satisfies \<open>errors.Is\<close> with \<open>context.Canceled\<close>). A
  context fires when it is cancelled and also when its deadline passes; in the second
  case \<open>ctx.Err()\<close> is \<open>context.DeadlineExceeded\<close>, the loop ends after the first
  attempt all the same, and the error returned does not satisfy \<open>errors.Is\<close> with
  \<open>context.Canceled\<close>.
\<close>

theorem C3_counterexample:
  "RetryHandler (retry_always 3 (ConstantBackOff_of 5000000)) deadline_runtime
      (Some cancellable_request) failing_downstream 0 =
     (Inr (None, Some (withMessage context_DeadlineExceeded ''down'')), 1) \<and>
   \<not> errors_Is (withMessage context_DeadlineExceeded ''down'') context_Canceled"
proof -
  have "retry_fn (retry_always 3 (ConstantBackOff_of 5000000)) deadline_runtime
      (Some cancellable_request) failing_downstream
      (WithMaxRetries (ConstantBackOff_of 5000000) 3) 0 =
      (False, (None, Some (withMessage context_DeadlineExceeded ''down'')),
       (WithMaxRetries (ConstantBackOff_of 5000000) 3)\<lparr>numTries := 1\<rparr>, 1)"
    by (simp add: retry_fn_def retry_always_def deadline_runtime_def cancellable_request_def
        failing_downstream_def WithMaxRetries_def ConstantBackOff_of_def pure_def
        backOffTries_NextBackOff_def sleepContext_def getRequestContext_def Stop_def
        deferred_cleanup_def errors_Wrap_def fmt_v_def)
  from retry_loop_returns [OF this]
  show ?thesis
    by (simp add: RetryHandler_def retry_always_def newFromBackOff_def ConstantBackOff_of_def
        pure_def)
qed

text \<open>
  Claim C3, amended. If, in some attempt of the retry loop, the context of the request
  is done (cancelled, or past its deadline) while \<open>sleepContext\<close> waits, the loop ends
  there: the world returned is the one in which the wait ended, so no further
  downstream attempt is made, the response is nil, and the error is \<open>ctx.Err()\<close>
  wrapped with the text of the attempt's error, its message being that text, a colon
  and the message of \<open>ctx.Err()\<close>. \<open>errors.Is\<close> finds \<open>ctx.Err()\<close> in it: the error
  satisfies \<open>errors.Is\<close> with \<open>context.Canceled\<close> when the context was cancelled, and
  with \<open>context.DeadlineExceeded\<close> and not with \<open>context.Canceled\<close> when its deadline
  passed. The same holds for \<open>RetryHandler\<close> when this is its first attempt.
\<close>

theorem C3_cancel_during_sleep:
  assumes attempt: "handlerFunc req w = ((resp, err), w1)"
    and should: "ShouldRetryFunc option req resp err w1 = (True, w2)"
    and interval: "backOffTries_NextBackOff b w2 = ((d, b1), w3)"
    and not_stop: "d \<noteq> Stop"
    and fires: "select_Done rt (getRequestContext req) d w3 = (True, w4)"
    and not_background: "getRequestContext req \<noteq> Background"
    and ctx_err: "e = ctx_Err rt (getRequestContext req) w4"
  shows "retry_loop option rt req handlerFunc b w =
           ((None, Some (withMessage e (fmt_v err))), w4) \<and>
         errors_Is (withMessage e (fmt_v err)) e \<and>
         (e = context_Canceled \<longrightarrow>
            errors_Is (withMessage e (fmt_v err)) context_Canceled) \<and>
         (e = context_DeadlineExceeded \<longrightarrow>
            errors_Is (withMessage e (fmt_v err)) context_DeadlineExceeded \<and>
            \<not> errors_Is (withMessage e (fmt_v err)) context_Canceled) \<and>
         error_Error (withMessage e (fmt_v err)) = fmt_v err @ '': '' @ error_Error e \<and>
         (MaxRetry option \<noteq> 0 \<longrightarrow>
          newFromBackOff (RetryBackOff option) w0 = Inr (bo, w) \<longrightarrow>
          b = WithMaxRetries bo (MaxRetry option) \<longrightarrow>
          RetryHandler option rt req handlerFunc w0 =
            (Inr (None, Some (withMessage e (fmt_v err))), w4))"
proof -
  have "retry_fn option rt req handlerFunc b w =
      (False, (None, Some (withMessage e (fmt_v err))), b1, w4)"
    using assms
    by (simp add: retry_fn_def sleepContext_def deferred_cleanup_def errors_Wrap_def)
  then have "retry_loop option rt req handlerFunc b w =
      ((None, Some (withMessage e (fmt_v err))), w4)"
    by (rule retry_loop_returns)
  moreover have "errors_Is (withMessage e (fmt_v err)) e"
    by (simp add: errors_Is_refl)
  ultimately show ?thesis
    by (auto simp add: RetryHandler_def)
qed

theorem C3_cancel_during_sleep_witness:
  "RetryHandler (retry_always 3 (ConstantBackOff_of 5000000)) cancelled_runtime
      (Some cancellable_request) failing_downstream 0 =
     (Inr (None, Some (withMessage context_Canceled ''down'')), 1) \<and>
   errors_Is (withMessage context_Canceled ''down'') context_Canceled \<and>
   error_Error (withMessage context_Canceled ''down'') = ''down: context canceled''"
  using C3_cancel_during_sleep [of failing_downstream "Some cancellable_request" 0
      None "Some (Foreign ''down'')" 1 "retry_always 3 (ConstantBackOff_of 5000000)" 1
      "WithMaxRetries (ConstantBackOff_of 5000000) 3" 5000000
      "(WithMaxRetries (ConstantBackOff_of 5000000) 3)\<lparr>numTries := 1\<rparr>" 1
      cancelled_runtime 1 context_Canceled 0 "ConstantBackOff_of 5000000"]
  by (simp add: retry_always_def cancelled_runtime_def cancellable_request_def
      failing_downstream_def WithMaxRetries_def ConstantBackOff_of_def pure_def
      backOffTries_NextBackOff_def getRequestContext_def Stop_def newFromBackOff_def fmt_v_def)

subsection \<open>Properties of the storage backends\<close>


lemma sint_of_int_in_range:
  assumes "- (2 ^ 63) \<le> d" and "d < 2 ^ 63"
  shows "sint (word_of_int d :: 64 word) = d"
  using assms by (simp add: sint_sbintrunc' signed_take_bit_int_eq_self)

lemma time_Unix_split: "time_Unix (sint n sdiv 1000000000) (sint n smod 1000000000) = n"
  by (simp add: time_Unix_def sdiv_mult_smod_eq)


lemma time_Sub_nonneg: "(0 \<le> sint (time_Sub t u)) = (sint u \<le> sint t)"
proof -
  define d where "d = sint t - sint u"
  have m: "sint (word_of_int (2 ^ 63 - 1) :: 64 word) = 2 ^ 63 - 1"
    by (rule sint_of_int_in_range) simp_all
  have n: "sint (word_of_int (- (2 ^ 63)) :: 64 word) = - (2 ^ 63)"
    by (rule sint_of_int_in_range) simp_all
  have r: "- (2 ^ 63) \<le> d \<Longrightarrow> d < 2 ^ 63 \<Longrightarrow> sint (word_of_int d :: 64 word) = d"
    by (rule sint_of_int_in_range)
  have "sint (time_Sub t u) =
      (if d > 2 ^ 63 - 1 then 2 ^ 63 - 1 else if d < - (2 ^ 63) then - (2 ^ 63) else d)"
    unfolding time_Sub_def Let_def d_def [symmetric]
    using m n r by (simp del: of_int_diff word_of_int_numeral)
  then show ?thesis
    by (auto simp: d_def)
qed




lemma FileCache_Get_remove_refused:
  assumes "files w (FileCache_path path_Join c key) = Some data"
    and "refuses w OpStat (FileCache_path path_Join c key) = None"
    and "refuses w OpReadFile (FileCache_path path_Join c key) = None"
    and "refuses w OpRemove (FileCache_path path_Join c key) = Some x"
    and "Unmarshal mp data = Inr e"
    and "sint (TTL e) < sint (TimeNowFunc c w)"
  shows "FileCache_Get path_Join mp c key w =
     (Inl (withMessage (PathError ''remove'' (FileCache_path path_Join c key) x)
        (''Error deleting an expired file, cache key '' @ [CHR 0x27] @ key @ [CHR 0x27])), w)"
  using assms
  by (simp add: FileCache_Get_def os_Stat_def os_ReadFile_def os_Remove_def Let_def
      time_Unix_split time_Sub_nonneg)














subsection \<open>Properties of the transaction codec\<close>

lemma distinct_fold_update:
  "distinct (map fst m0) \<Longrightarrow>
   distinct (map fst (fold (\<lambda>(key, _) m. AList.update key (f key) m) xs m0))"
  by (induction xs arbitrary: m0) (auto simp: distinct_update)

lemma distinct_httpHeaderToMap: "distinct (map fst (httpHeaderToMap header))"
  by (simp add: httpHeaderToMap_def distinct_fold_update)

lemma keys_httpHeaderToMap: "fst ` set (httpHeaderToMap header) = fst ` set header"
proof -
  have "dom (map_of (httpHeaderToMap header)) = fst ` set header"
    by (auto simp: map_of_httpHeaderToMap dom_def split: if_splits)
  then show ?thesis
    by (simp add: dom_map_of_conv_image_fst)
qed

lemma map_of_fold_Set:
  "distinct (map fst m) \<Longrightarrow> \<forall>k \<in> fst ` set m. CanonicalMIMEHeaderKey k = k \<Longrightarrow>
   map_of (fold (\<lambda>(key, value) header. Header_Set header key value) m h0) K =
     (case map_of m K of Some v \<Rightarrow> Some [v] | None \<Rightarrow> map_of h0 K)"
proof (induction m arbitrary: h0)
  case Nil
  then show ?case by simp
next
  case (Cons kv m)
  obtain k v where kv: "kv = (k, v)" by (cases kv) auto
  have k: "CanonicalMIMEHeaderKey k = k" and notin: "k \<notin> fst ` set m"
    using Cons.prems kv by auto
  have "map_of m k = None"
    using notin by (simp add: map_of_eq_None_iff)
  moreover have "map_of (fold (\<lambda>(key, value) header. Header_Set header key value) m
      (Header_Set h0 k v)) K =
     (case map_of m K of Some v \<Rightarrow> Some [v] | None \<Rightarrow> map_of (Header_Set h0 k v) K)"
    using Cons.prems by (intro Cons.IH) auto
  ultimately show ?case
    by (auto simp: kv Header_Set_def k update_conv' split: option.splits)
qed

lemma map_of_mapToHTTPHeader:
  assumes "\<forall>k \<in> fst ` set header. CanonicalMIMEHeaderKey k = k"
  shows "map_of (mapToHTTPHeader (httpHeaderToMap header)) K =
     (if K \<in> fst ` set header then Some [Header_Get header K] else None)"
proof -
  have "\<forall>k \<in> fst ` set (httpHeaderToMap header). CanonicalMIMEHeaderKey k = k"
    using assms by (simp add: keys_httpHeaderToMap)
  from map_of_fold_Set [OF distinct_httpHeaderToMap this, of "[]" K]
  show ?thesis
    by (simp add: mapToHTTPHeader_def map_of_httpHeaderToMap)
qed

lemma Encode_readable:
  assumes req: "RequestEntry.Request t = Some r" and url: "Request.URL r = Some u"
    and rbody: "Request.Body r = None \<and> rb = [] \<or> Request.Body r = Some (Reader rb)"
    and wbody: "case RequestEntry.Response t of
                  None \<Rightarrow> wb = []
                | Some w \<Rightarrow> Response.Body w = None \<and> wb = [] \<or> Response.Body w = Some (Reader wb)"
  shows "requestEntryEncoderDecoder_Encode mp t = Marshal mp (encoded_struct t r u rb wb)"
proof -
  have 1: "(case Request.Body r of None \<Rightarrow> Inr [] | Some b \<Rightarrow> fst (copyHTTPRequestBody r b)) = Inr rb"
    using rbody by (auto simp: copyHTTPRequestBody_def)
  have 2: "(case RequestEntry.Response t of
              None \<Rightarrow> Inr []
            | Some w \<Rightarrow>
                (case Response.Body w of
                   None \<Rightarrow> Inr []
                 | Some b \<Rightarrow> fst (copyHTTPResponseBody w b))) = Inr wb"
    using wbody by (auto simp: copyHTTPResponseBody_def split: option.splits)
  show ?thesis
    unfolding requestEntryEncoderDecoder_Encode_def encoded_struct_def
    by (simp add: req url 1 2)
qed

lemma struct_fields:
  "HTTPRequestResponse.Method (encoded_struct t r u rb wb) = Request.Method r"
  "HTTPRequestResponse.URL (encoded_struct t r u rb wb) = URL_String u"
  "HTTPRequestResponse.RequestBody (encoded_struct t r u rb wb) = rb"
  "HTTPRequestResponse.Error (encoded_struct t r u rb wb) = map_option error_Error (RequestEntry.Error t)"
  "HTTPRequestResponse.StatusCode (encoded_struct t r u rb wb) =
     (case RequestEntry.Response t of None \<Rightarrow> 0 | Some w \<Rightarrow> Response.StatusCode w)"
  "HTTPRequestResponse.ResponseBody (encoded_struct t r u rb wb) =
     (case RequestEntry.Response t of None \<Rightarrow> [] | Some w \<Rightarrow> wb)"
  "HTTPRequestResponse.ResponseHeader (encoded_struct t r u rb wb) =
     (case RequestEntry.Response t of None \<Rightarrow> [] | Some w \<Rightarrow> httpHeaderToMap (Response.Header w))"
  by (simp_all add: encoded_struct_def Encode_error_part_def Encode_response_part_def
      Encode_request_part_def split: option.splits)

lemma NewRequest_valid:
  assumes "validMethod method" and "url_Parse url = Inr u"
  shows "http_NewRequest url_Parse method url body =
     Inr \<lparr>Request.Method = method, Request.URL = Some u, Request.Header = [],
          Request.Body = Some body, Request.ctx = Background\<rparr>"
  using assms by (auto simp: http_NewRequest_def validMethod_def Let_def)

lemma Decode_struct:
  assumes dec: "Unmarshal mp b = Inr e"
    and token: "validMethod (HTTPRequestResponse.Method e)"
    and parse: "url_Parse (HTTPRequestResponse.URL e) = Inr u"
  shows "\<exists>re q. requestEntryEncoderDecoder_Decode mp url_Parse b = Inr re \<and>
     RequestEntry.Request re = Some q \<and>
     Request.Method q = HTTPRequestResponse.Method e \<and>
     Request.URL q = Some u \<and>
     Request.Body q = Some (Reader (HTTPRequestResponse.RequestBody e)) \<and>
     (if HTTPRequestResponse.StatusCode e > 0
      then \<exists>w. RequestEntry.Response re = Some w \<and>
             Response.StatusCode w = HTTPRequestResponse.StatusCode e \<and>
             Response.Body w = Some (Reader (HTTPRequestResponse.ResponseBody e)) \<and>
             Response.Header w = mapToHTTPHeader (HTTPRequestResponse.ResponseHeader e)
      else RequestEntry.Response re = None) \<and>
     RequestEntry.Error re = map_option errors_New (HTTPRequestResponse.Error e)"
proof -
  have "http_NewRequest url_Parse (HTTPRequestResponse.Method e) (HTTPRequestResponse.URL e)
      (Reader (HTTPRequestResponse.RequestBody e)) =
     Inr \<lparr>Request.Method = HTTPRequestResponse.Method e, Request.URL = Some u, Request.Header = [],
          Request.Body = Some (Reader (HTTPRequestResponse.RequestBody e)), Request.ctx = Background\<rparr>"
    using token parse by (rule NewRequest_valid)
  then show ?thesis
    unfolding requestEntryEncoderDecoder_Decode_def
    by (simp add: dec Let_def split: option.splits)
qed

lemma canon_X_Multi: "CanonicalMIMEHeaderKey ''X-Multi'' = ''X-Multi''"
  by code_simp

lemma example_Encode:
  "requestEntryEncoderDecoder_Encode example_codec example_entry = Inr ''entry''"
proof -
  have "requestEntryEncoderDecoder_Encode example_codec example_entry =
      Marshal example_codec
        (encoded_struct example_entry example_request (URL.URL ''https://example.com'') []
          ''hello world'')"
    by (rule Encode_readable)
      (simp_all add: example_entry_def example_request_def example_response_def)
  then show ?thesis
    by (simp add: example_codec_def one_value_codec_def)
qed

lemma example_header:
  "mapToHTTPHeader (httpHeaderToMap [(''X-Multi'', [''a'', ''b''])]) = [(''X-Multi'', [''a''])]"
  by (simp add: mapToHTTPHeader_def httpHeaderToMap_def Header_Get_def Header_Set_def canon_X_Multi)

lemma validMethod_GET: "validMethod ''GET''"
  by code_simp

text \<open>
  Claim C6, as stated (for every transaction with a request and a URL,
  \<open>Decode(Encode(t))\<close> succeeds and reproduces, among others, the request and response
  header key/value pairs). It fails on a GET request with the header \<open>X-Test: 1\<close> and a
  response 200 with the header \<open>X-Multi: a, b\<close>: the decoded request has no header, and
  the decoded response header has \<open>X-Multi: a\<close> only.
\<close>

theorem C6_counterexample:
  "requestEntryEncoderDecoder_Encode example_codec example_entry = Inr ''entry'' \<and>
   map_sum id
     (\<lambda>re. (map_option Request.Header (RequestEntry.Request re),
            map_option Response.Header (RequestEntry.Response re)))
     (requestEntryEncoderDecoder_Decode example_codec parse_any ''entry'') =
     Inr (Some [], Some [(''X-Multi'', [''a''])]) \<and>
   Request.Header example_request = [(''X-Test'', [''1''])] \<and>
   Response.Header example_response = [(''X-Multi'', [''a'', ''b''])]"
proof -
  have u: "Unmarshal example_codec ''entry'' =
      Inr (encoded_struct example_entry example_request (URL.URL ''https://example.com'') []
          ''hello world'')"
    by (simp add: example_codec_def one_value_codec_def)
  have n: "http_NewRequest parse_any ''GET'' ''https://example.com'' (Reader []) =
     Inr \<lparr>Request.Method = ''GET'', Request.URL = Some (URL.URL ''https://example.com''),
          Request.Header = [], Request.Body = Some (Reader []), Request.ctx = Background\<rparr>"
    by (rule NewRequest_valid [OF validMethod_GET]) (simp add: parse_any_def)
  have "map_sum id
     (\<lambda>re. (map_option Request.Header (RequestEntry.Request re),
            map_option Response.Header (RequestEntry.Response re)))
     (requestEntryEncoderDecoder_Decode example_codec parse_any ''entry'') =
     Inr (Some [], Some [(''X-Multi'', [''a''])])"
    unfolding requestEntryEncoderDecoder_Decode_def u
    by (simp add: struct_fields example_entry_def example_request_def example_response_def n
        example_header Let_def)
  then show ?thesis
    by (simp add: example_Encode) (simp add: example_request_def example_response_def)
qed

text \<open>
  Claim C6, amended. For every transaction \<open>t\<close> whose request is not nil, has a URL
  that parses back to itself and a valid (non-empty token) method, whose bodies read
  without error, and on whose struct msgpack round-trips: \<open>Decode(Encode(t))\<close> succeeds
  and reproduces the request method, the URL string, the request body bytes, error
  presence and error text; a response is present exactly when the transaction has a
  response with a positive status code, and then has the same status code and body
  bytes and, when the response header names are canonical, each name with its first
  value as its only value.
\<close>

theorem C6_roundtrip:
  assumes req: "RequestEntry.Request t = Some r" and url: "Request.URL r = Some u"
    and token: "validMethod (Request.Method r)"
    and parse: "url_Parse (URL_String u) = Inr u"
    and rbody: "Request.Body r = None \<and> rb = [] \<or> Request.Body r = Some (Reader rb)"
    and wbody: "case RequestEntry.Response t of
                  None \<Rightarrow> wb = []
                | Some w \<Rightarrow> Response.Body w = None \<and> wb = [] \<or> Response.Body w = Some (Reader wb)"
    and enc: "Marshal mp (encoded_struct t r u rb wb) = Inr b"
    and dec: "Unmarshal mp b = Inr (encoded_struct t r u rb wb)"
  shows "\<exists>re q.
     requestEntryEncoderDecoder_Encode mp t = Inr b \<and>
     requestEntryEncoderDecoder_Decode mp url_Parse b = Inr re \<and>
     RequestEntry.Request re = Some q \<and>
     Request.Method q = Request.Method r \<and>
     map_option URL_String (Request.URL q) = Some (URL_String u) \<and>
     Request.Body q = Some (Reader rb) \<and>
     (case RequestEntry.Response t of
        None \<Rightarrow> RequestEntry.Response re = None
      | Some w \<Rightarrow>
          if Response.StatusCode w > 0
          then \<exists>w'. RequestEntry.Response re = Some w' \<and>
                 Response.StatusCode w' = Response.StatusCode w \<and>
                 Response.Body w' = Some (Reader wb) \<and>
                 ((\<forall>k \<in> fst ` set (Response.Header w). CanonicalMIMEHeaderKey k = k) \<longrightarrow>
                  (\<forall>K. map_of (Response.Header w') K =
                     (if K \<in> fst ` set (Response.Header w)
                      then Some [Header_Get (Response.Header w) K] else None)))
          else RequestEntry.Response re = None) \<and>
     map_option error_Error (RequestEntry.Error re) = map_option error_Error (RequestEntry.Error t)"
proof -
  let ?e = "encoded_struct t r u rb wb"
  have E: "requestEntryEncoderDecoder_Encode mp t = Inr b"
    using Encode_readable [OF req url rbody wbody, of mp] enc by simp
  have m: "validMethod (HTTPRequestResponse.Method ?e)"
    using token by (simp add: struct_fields)
  have p: "url_Parse (HTTPRequestResponse.URL ?e) = Inr u"
    using parse by (simp add: struct_fields)
  from Decode_struct [where url_Parse = url_Parse and u = u, OF dec m p]
  obtain re q where D: "requestEntryEncoderDecoder_Decode mp url_Parse b = Inr re"
    and q: "RequestEntry.Request re = Some q" "Request.Method q = HTTPRequestResponse.Method ?e"
      "Request.URL q = Some u" "Request.Body q = Some (Reader (HTTPRequestResponse.RequestBody ?e))"
    and w: "if HTTPRequestResponse.StatusCode ?e > 0
      then \<exists>w. RequestEntry.Response re = Some w \<and>
             Response.StatusCode w = HTTPRequestResponse.StatusCode ?e \<and>
             Response.Body w = Some (Reader (HTTPRequestResponse.ResponseBody ?e)) \<and>
             Response.Header w = mapToHTTPHeader (HTTPRequestResponse.ResponseHeader ?e)
      else RequestEntry.Response re = None"
    and e: "RequestEntry.Error re = map_option errors_New (HTTPRequestResponse.Error ?e)"
    by blast
  have err: "map_option error_Error (RequestEntry.Error re) = map_option error_Error (RequestEntry.Error t)"
    by (cases "RequestEntry.Error t") (simp_all add: e struct_fields)
  have resp: "case RequestEntry.Response t of
        None \<Rightarrow> RequestEntry.Response re = None
      | Some w \<Rightarrow>
          if Response.StatusCode w > 0
          then \<exists>w'. RequestEntry.Response re = Some w' \<and>
                 Response.StatusCode w' = Response.StatusCode w \<and>
                 Response.Body w' = Some (Reader wb) \<and>
                 ((\<forall>k \<in> fst ` set (Response.Header w). CanonicalMIMEHeaderKey k = k) \<longrightarrow>
                  (\<forall>K. map_of (Response.Header w') K =
                     (if K \<in> fst ` set (Response.Header w)
                      then Some [Header_Get (Response.Header w) K] else None)))
          else RequestEntry.Response re = None"
  proof (cases "RequestEntry.Response t")
    case None
    with w show ?thesis by (simp add: struct_fields)
  next
    case (Some w0)
    show ?thesis
    proof (cases "Response.StatusCode w0 > 0")
      case True
      with w Some obtain w' where w': "RequestEntry.Response re = Some w'"
        "Response.StatusCode w' = Response.StatusCode w0"
        "Response.Body w' = Some (Reader wb)"
        "Response.Header w' = mapToHTTPHeader (httpHeaderToMap (Response.Header w0))"
        by (auto simp: struct_fields)
      then show ?thesis
        using Some True by (simp add: map_of_mapToHTTPHeader)
    next
      case False
      with w Some show ?thesis by (simp add: struct_fields)
    qed
  qed
  show ?thesis
    using E D q err resp by (simp add: struct_fields)
qed

theorem C6_roundtrip_witness:
  "\<exists>re q w'.
     requestEntryEncoderDecoder_Encode example_codec example_entry = Inr ''entry'' \<and>
     requestEntryEncoderDecoder_Decode example_codec parse_any ''entry'' = Inr re \<and>
     RequestEntry.Request re = Some q \<and>
     Request.Method q = ''GET'' \<and>
     Request.URL q = Some (URL.URL ''https://example.com'') \<and>
     Request.Body q = Some (Reader []) \<and>
     RequestEntry.Response re = Some w' \<and>
     Response.StatusCode w' = 200 \<and>
     Response.Body w' = Some (Reader ''hello world'') \<and>
     map_of (Response.Header w') ''X-Multi'' = Some [''a''] \<and>
     RequestEntry.Error re = None"
proof -
  let ?u = "URL.URL ''https://example.com''"
  have req: "RequestEntry.Request example_entry = Some example_request"
    by (simp add: example_entry_def)
  have url: "Request.URL example_request = Some ?u"
    by (simp add: example_request_def)
  have token: "validMethod (Request.Method example_request)"
    by (simp add: example_request_def validMethod_GET)
  have parse: "parse_any (URL_String ?u) = Inr ?u"
    by (simp add: parse_any_def)
  have rbody: "Request.Body example_request = None \<and> [] = [] \<or>
      Request.Body example_request = Some (Reader [])"
    by (simp add: example_request_def)
  have wbody: "case RequestEntry.Response example_entry of
                  None \<Rightarrow> ''hello world'' = []
                | Some w \<Rightarrow> Response.Body w = None \<and> ''hello world'' = [] \<or>
                    Response.Body w = Some (Reader ''hello world'')"
    by (simp add: example_entry_def example_response_def)
  have enc: "Marshal example_codec (encoded_struct example_entry example_request ?u [] ''hello world'') =
      Inr ''entry''"
    by (simp add: example_codec_def one_value_codec_def)
  have dec: "Unmarshal example_codec ''entry'' =
      Inr (encoded_struct example_entry example_request ?u [] ''hello world'')"
    by (simp add: example_codec_def one_value_codec_def)
  from C6_roundtrip [where url_Parse = parse_any, OF req url token parse rbody wbody enc dec]
  obtain re q where E: "requestEntryEncoderDecoder_Encode example_codec example_entry = Inr ''entry''"
    and D: "requestEntryEncoderDecoder_Decode example_codec parse_any ''entry'' = Inr re"
    and q: "RequestEntry.Request re = Some q" "Request.Method q = Request.Method example_request"
      "map_option URL_String (Request.URL q) = Some (URL_String ?u)"
      "Request.Body q = Some (Reader [])"
    and w: "case RequestEntry.Response example_entry of
        None \<Rightarrow> RequestEntry.Response re = None
      | Some w \<Rightarrow>
          if Response.StatusCode w > 0
          then \<exists>w'. RequestEntry.Response re = Some w' \<and>
                 Response.StatusCode w' = Response.StatusCode w \<and>
                 Response.Body w' = Some (Reader ''hello world'') \<and>
                 ((\<forall>k \<in> fst ` set (Response.Header w). CanonicalMIMEHeaderKey k = k) \<longrightarrow>
                  (\<forall>K. map_of (Response.Header w') K =
                     (if K \<in> fst ` set (Response.Header w)
                      then Some [Header_Get (Response.Header w) K] else None)))
          else RequestEntry.Response re = None"
    and e: "map_option error_Error (RequestEntry.Error re) =
      map_option error_Error (RequestEntry.Error example_entry)"
    by blast
  from w obtain w' where w': "RequestEntry.Response re = Some w'"
    "Response.StatusCode w' = 200" "Response.Body w' = Some (Reader ''hello world'')"
    "\<forall>K. map_of (Response.Header w') K =
       (if K = ''X-Multi'' then Some [Header_Get [(''X-Multi'', [''a'', ''b''])] K] else None)"
    by (auto simp: example_entry_def example_response_def canon_X_Multi)
  have h: "map_of (Response.Header w') ''X-Multi'' = Some [''a'']"
    using w'(4) by (simp add: Header_Get_def canon_X_Multi)
  have "Request.URL q = Some ?u"
    using q(3) by (cases "Request.URL q") (auto simp: URL.expand)
  moreover have "RequestEntry.Error re = None"
    using e by (simp add: example_entry_def)
  ultimately show ?thesis
    using E D q w' h by (simp add: example_request_def)
qed

end
